theory Spec2Isabelle
  imports Complex_Main
begin

section \<open>NanoMolEditor: data model\<close>

text \<open>
  JavaScript numbers are modelled exactly: coordinates, angles and the zoom scale are
  \<^typ>\<open>real\<close>, bond orders and the history index are \<^typ>\<open>int\<close>. Atom ids and element
  symbols are ASCII strings. Rendered labels contain subscript glyphs outside ASCII, so a
  label is a list of UTF-16 code units, as a JavaScript string is.
\<close>

record AtomData =
  atom_id :: string
  atom_x :: real
  atom_y :: real
  element :: string

record BondData =
  bond_id :: string
  source :: string
  target :: string
  btype :: int

record HistoryState =
  h_atoms :: "AtomData list"
  h_bonds :: "BondData list"

datatype ToolType = Select | Draw | Erase

record View =
  view_x :: real
  view_y :: real
  view_k :: real

type_synonym vec2 = "real \<times> real"

record DragStart =
  ds_id :: string
  ds_x :: real
  ds_y :: real

text \<open>
  The component's React state: the seven persisted fields of \<open>EditorState\<close> followed by
  the gesture-local fields. A handler reads the fields of the render it was created in and
  its \<open>set...\<close> calls take effect together, so a handler is a function from the state
  before to the state after. The calls of the host's \<open>onChange\<close> callback and the pointer
  capture are outputs on which no handler depends; they are left out.
\<close>

record Editor =
  atoms :: "AtomData list"
  bonds :: "BondData list"
  view :: View
  history :: "HistoryState list"
  historyIndex :: int
  tool :: ToolType
  activeElement :: string
  dragStart :: "DragStart option"
  pointerPos :: "vec2 option"
  hoveredAtom :: "string option"
  isDragging :: bool
  snapTargetId :: "string option"
  isPanning :: bool
  panStart :: "vec2 option"

definition initialEditor :: Editor where
  "initialEditor =
     \<lparr> atoms = [], bonds = [],
       view = \<lparr> view_x = 0, view_y = 0, view_k = 1 \<rparr>,
       history = [\<lparr> h_atoms = [], h_bonds = [] \<rparr>], historyIndex = 0,
       tool = Draw, activeElement = ''C'',
       dragStart = None, pointerPos = None, hoveredAtom = None, isDragging = False,
       snapTargetId = None, isPanning = False, panStart = None \<rparr>"

section \<open>Valence table and atom labels\<close>

type_synonym ustring = "nat list"

definition ascii :: "string \<Rightarrow> ustring" where
  "ascii s = map of_char s"

text \<open>The table \<open>VALENCE\<close>; a symbol outside it has no entry.\<close>

definition VALENCE :: "string \<Rightarrow> int option" where
  "VALENCE e =
     (if e = ''C'' then Some 4 else if e = ''N'' then Some 3 else if e = ''O'' then Some 2
      else if e = ''H'' then Some 1 else if e = ''S'' then Some 2 else if e = ''Cl'' then Some 1
      else if e = ''F'' then Some 1 else if e = ''P'' then Some 5 else if e = ''Br'' then Some 1
      else if e = ''I'' then Some 1 else None)"

text \<open>\<open>VALENCE[atom.element] || 0\<close>: a missing entry, like an entry 0, gives 0.\<close>

definition maxValence :: "AtomData \<Rightarrow> int" where
  "maxValence a = (case VALENCE (element a) of None \<Rightarrow> 0 | Some v \<Rightarrow> (if v = 0 then 0 else v))"

definition connectedBonds :: "AtomData \<Rightarrow> BondData list \<Rightarrow> BondData list" where
  "connectedBonds a bs = filter (\<lambda>b. source b = atom_id a \<or> target b = atom_id a) bs"

text \<open>\<open>connectedBonds.reduce((sum, b) => sum + b.type, 0)\<close>\<close>

definition currentValence :: "AtomData \<Rightarrow> BondData list \<Rightarrow> int" where
  "currentValence a bs = foldl (\<lambda>sum b. sum + btype b) 0 (connectedBonds a bs)"

definition implicitH :: "AtomData \<Rightarrow> BondData list \<Rightarrow> int" where
  "implicitH a bs = max 0 (maxValence a - currentValence a bs)"

text \<open>\<open>String(num)\<close> for an integer: an optional minus sign and the decimal digits.\<close>

fun digitsOf :: "nat \<Rightarrow> nat list" where
  "digitsOf n = (if n < 10 then [n] else digitsOf (n div 10) @ [n mod 10])"

declare digitsOf.simps [simp del]

definition numToString :: "int \<Rightarrow> ustring" where
  "numToString i =
     (if i < 0 then 45 # map (\<lambda>d. 48 + d) (digitsOf (nat (- i)))
      else map (\<lambda>d. 48 + d) (digitsOf (nat i)))"

text \<open>
  The digit table of \<open>toSubscript\<close>: the code units of \<open>'0'\<close> .. \<open>'9'\<close> (48 .. 57) map to
  the subscript digits U+2080 .. U+2089 (8320 .. 8329); any other unit is kept.
\<close>

definition subscriptMap :: "nat \<Rightarrow> nat option" where
  "subscriptMap c = (if 48 \<le> c \<and> c \<le> 57 then Some (8320 + (c - 48)) else None)"

definition toSubscript :: "int \<Rightarrow> ustring" where
  "toSubscript num =
     map (\<lambda>n. case subscriptMap n of Some g \<Rightarrow> g | None \<Rightarrow> n) (numToString num)"

text \<open>\<open>getAtomLabel\<close>; \<open>None\<close> is the \<open>null\<close> of a skeletal carbon.\<close>

definition getAtomLabel :: "AtomData \<Rightarrow> BondData list \<Rightarrow> ustring option" where
  "getAtomLabel a bs =
     (if element a = ''C'' then
        (if length (connectedBonds a bs) = 0 then Some (ascii ''CH'' @ toSubscript 4) else None)
      else
        let label = ascii (element a);
            labelH =
              (if implicitH a bs > 0 then
                 (if element a = ''H'' then toSubscript 2 else ascii ''H'')
                 @ (if implicitH a bs > 1 then toSubscript (implicitH a bs) else [])
               else [])
        in if currentValence a bs = 0 \<and> element a \<noteq> ''N'' \<and> element a \<noteq> ''H''
           then Some (labelH @ label)
           else Some (label @ labelH))"

section \<open>History stack\<close>

text \<open>
  \<open>arr.slice(0, e)\<close> for an integer \<open>e\<close>: a negative end counts from the end of the
  array, and the result is clipped to the array.
\<close>

definition sliceTo :: "'a list \<Rightarrow> int \<Rightarrow> 'a list" where
  "sliceTo xs e =
     (if e < 0 then take (nat (max (int (length xs) + e) 0)) xs else take (nat e) xs)"

text \<open>\<open>arr[i]\<close>: \<open>undefined\<close> outside the array.\<close>

definition nth_opt :: "'a list \<Rightarrow> int \<Rightarrow> 'a option" where
  "nth_opt xs i = (if 0 \<le> i \<and> i < int (length xs) then Some (xs ! nat i) else None)"

definition commitToHistory :: "AtomData list \<Rightarrow> BondData list \<Rightarrow> Editor \<Rightarrow> Editor" where
  "commitToHistory newAtoms newBonds s =
     (let newHistory = sliceTo (history s) (historyIndex s + 1)
                         @ [\<lparr> h_atoms = newAtoms, h_bonds = newBonds \<rparr>]
      in s\<lparr> history := newHistory, historyIndex := int (length newHistory) - 1,
             atoms := newAtoms, bonds := newBonds \<rparr>)"

datatype js_error = TypeError

text \<open>
  \<open>undo\<close> and \<open>redo\<close> read a field of \<open>history[i]\<close>; where that entry is \<open>undefined\<close>
  the read throws before any state is set.
\<close>

definition undo :: "Editor \<Rightarrow> js_error + Editor" where
  "undo s =
     (if historyIndex s > 0 then
        (case nth_opt (history s) (historyIndex s - 1) of
           None \<Rightarrow> Inl TypeError
         | Some prev \<Rightarrow>
             Inr (s\<lparr> atoms := h_atoms prev, bonds := h_bonds prev,
                     historyIndex := historyIndex s - 1 \<rparr>))
      else Inr s)"

definition redo :: "Editor \<Rightarrow> js_error + Editor" where
  "redo s =
     (if historyIndex s < int (length (history s)) - 1 then
        (case nth_opt (history s) (historyIndex s + 1) of
           None \<Rightarrow> Inl TypeError
         | Some nxt \<Rightarrow>
             Inr (s\<lparr> atoms := h_atoms nxt, bonds := h_bonds nxt,
                     historyIndex := historyIndex s + 1 \<rparr>))
      else Inr s)"

section \<open>Vector helpers\<close>

definition vec_add :: "vec2 \<Rightarrow> vec2 \<Rightarrow> vec2" where
  "vec_add v1 v2 = (fst v1 + fst v2, snd v1 + snd v2)"

definition vec_sub :: "vec2 \<Rightarrow> vec2 \<Rightarrow> vec2" where
  "vec_sub v1 v2 = (fst v1 - fst v2, snd v1 - snd v2)"

definition vec_scale :: "vec2 \<Rightarrow> real \<Rightarrow> vec2" where
  "vec_scale v k = (fst v * k, snd v * k)"

definition vec_len :: "vec2 \<Rightarrow> real" where
  "vec_len v = sqrt (fst v * fst v + snd v * snd v)"

definition vec_norm :: "vec2 \<Rightarrow> vec2" where
  "vec_norm v =
     (let l = sqrt (fst v * fst v + snd v * snd v)
      in if l = 0 then (0, 0) else (fst v / l, snd v / l))"

definition vec_dot :: "vec2 \<Rightarrow> vec2 \<Rightarrow> real" where
  "vec_dot v1 v2 = fst v1 * fst v2 + snd v1 * snd v2"

definition vec_cross :: "vec2 \<Rightarrow> vec2 \<Rightarrow> real" where
  "vec_cross v1 v2 = fst v1 * snd v2 - snd v1 * fst v2"

text \<open>\<open>Math.acos\<close> of the dot product of the unit vectors, clamped to [-1, 1].\<close>

definition vec_angle :: "vec2 \<Rightarrow> vec2 \<Rightarrow> real" where
  "vec_angle v1 v2 = arccos (max (- 1) (min 1 (vec_dot (vec_norm v1) (vec_norm v2))))"

definition pos :: "AtomData \<Rightarrow> vec2" where
  "pos a = (atom_x a, atom_y a)"

definition distance :: "vec2 \<Rightarrow> vec2 \<Rightarrow> real" where
  "distance a b = vec_len (vec_sub a b)"

definition BOND_SNAP_DIST :: real where
  "BOND_SNAP_DIST = 20"

text \<open>
  \<open>Math.atan2(y, x)\<close>, the angle of the point (x, y) in (-pi, pi], with 0 at the origin.
\<close>

definition atan2 :: "real \<Rightarrow> real \<Rightarrow> real" where
  "atan2 y x =
     (if x > 0 then arctan (y / x)
      else if x < 0 then (if y \<ge> 0 then arctan (y / x) + pi else arctan (y / x) - pi)
      else if y > 0 then pi / 2
      else if y < 0 then - (pi / 2)
      else 0)"

text \<open>\<open>Math.round\<close> rounds a half up, as \<^const>\<open>round\<close> does.\<close>

definition snapToAngle :: "real \<Rightarrow> real \<Rightarrow> real \<Rightarrow> real \<Rightarrow> vec2" where
  "snapToAngle x1 y1 x2 y2 =
     (let angle = atan2 (y2 - y1) (x2 - x1);
          snap = pi / 6;
          snappedAngle = of_int (round (angle / snap)) * snap;
          standardLen = 40 * 1.5
      in (x1 + cos snappedAngle * standardLen, y1 + sin snappedAngle * standardLen))"

section \<open>Props, events and coordinates\<close>

text \<open>
  The props the handlers read: the read-only flag, and the left and top of the bounding
  rectangle of the SVG element (\<open>None\<close> while \<open>svgRef.current\<close> is null).
\<close>

record Props =
  isReadOnly :: bool
  svgRect :: "vec2 option"

record PointerEvent =
  clientX :: real
  clientY :: real

record WheelEvent = PointerEvent +
  deltaY :: real

definition getPointerCoords :: "Props \<Rightarrow> View \<Rightarrow> 'a PointerEvent_scheme \<Rightarrow> vec2" where
  "getPointerCoords p vw e =
     (case svgRect p of
        None \<Rightarrow> (0, 0)
      | Some rect \<Rightarrow>
          (let relX = clientX e - fst rect; relY = clientY e - snd rect
           in ((relX - view_x vw) / view_k vw, (relY - view_y vw) / view_k vw)))"

definition handleWheel :: "Props \<Rightarrow> WheelEvent \<Rightarrow> Editor \<Rightarrow> Editor" where
  "handleWheel p e s =
     (if isReadOnly p then s
      else
        let scaleFactor = 1 - deltaY e * 0.001;
            newK = max 0.1 (min 5 (view_k (view s) * scaleFactor))
        in case svgRect p of
             None \<Rightarrow> s
           | Some rect \<Rightarrow>
               (let mouseX = clientX e - fst rect;
                    mouseY = clientY e - snd rect;
                    worldX = (mouseX - view_x (view s)) / view_k (view s);
                    worldY = (mouseY - view_y (view s)) / view_k (view s);
                    newX = mouseX - worldX * newK;
                    newY = mouseY - worldY * newK
                in s\<lparr> view := \<lparr> view_x = newX, view_y = newY, view_k = newK \<rparr> \<rparr>))"

section \<open>Tool and element setters, clearing\<close>

definition handleSetTool :: "ToolType \<Rightarrow> Editor \<Rightarrow> Editor" where
  "handleSetTool t s = s\<lparr> tool := t \<rparr>"

definition handleSetElement :: "string \<Rightarrow> Editor \<Rightarrow> Editor" where
  "handleSetElement el s = s\<lparr> activeElement := el, tool := Draw \<rparr>"

definition clearCanvas :: "Props \<Rightarrow> Editor \<Rightarrow> Editor" where
  "clearCanvas p s = (if isReadOnly p then s else commitToHistory [] [] s)"

section \<open>Pointer handlers\<close>

text \<open>The order cycle written out in both pointer handlers: 1 to 2, 2 to 3, anything else to 1.\<close>

definition nextType :: "int \<Rightarrow> int" where
  "nextType t = (if t = 1 then 2 else if t = 2 then 3 else 1)"

text \<open>\<open>findIndex\<close>, with \<open>None\<close> for -1.\<close>

fun findIndex :: "('a \<Rightarrow> bool) \<Rightarrow> 'a list \<Rightarrow> nat option" where
  "findIndex P [] = None"
| "findIndex P (x # xs) = (if P x then Some 0 else map_option Suc (findIndex P xs))"

text \<open>The bond hit test of \<open>handlePointerDown\<close>: distance to the segment below 8.\<close>

definition hitBond :: "AtomData list \<Rightarrow> real \<Rightarrow> real \<Rightarrow> BondData \<Rightarrow> bool" where
  "hitBond ats x y b =
     (case find (\<lambda>a. atom_id a = source b) ats of
        None \<Rightarrow> False
      | Some s \<Rightarrow>
          (case find (\<lambda>a. atom_id a = target b) ats of
             None \<Rightarrow> False
           | Some t \<Rightarrow>
               (let A = x - atom_x s; B = y - atom_y s;
                    C = atom_x t - atom_x s; D = atom_y t - atom_y s;
                    dot = A * C + B * D;
                    lenSq = C * C + D * D;
                    param = (if lenSq \<noteq> 0 then dot / lenSq else - 1);
                    xx = (if param < 0 then atom_x s else if param > 1 then atom_x t
                          else atom_x s + param * C);
                    yy = (if param < 0 then atom_y s else if param > 1 then atom_y t
                          else atom_y s + param * D)
                in sqrt ((x - xx) * (x - xx) + (y - yy) * (y - yy)) < 8)))"

text \<open>
  \<open>addAtom\<close> draws the id of the new atom from \<open>Math.random\<close>; the handlers take the ids
  they would draw as arguments.
\<close>

definition addAtom :: "string \<Rightarrow> real \<Rightarrow> real \<Rightarrow> string \<Rightarrow> AtomData" where
  "addAtom newId x y el = \<lparr> atom_id = newId, atom_x = x, atom_y = y, element = el \<rparr>"

definition anchorAt :: "AtomData \<Rightarrow> DragStart" where
  "anchorAt a = \<lparr> ds_id = atom_id a, ds_x = atom_x a, ds_y = atom_y a \<rparr>"

definition handlePointerDown :: "Props \<Rightarrow> PointerEvent \<Rightarrow> string \<Rightarrow> Editor \<Rightarrow> Editor" where
  "handlePointerDown p e newId s =
     (if isReadOnly p then s
      else
        let xy = getPointerCoords p (view s) e;
            x = fst xy; y = snd xy;
            clickedAtom = find (\<lambda>a. distance (pos a) (x, y) < 15) (atoms s);
            clickedBond = (if clickedAtom = None then find (hitBond (atoms s) x y) (bonds s)
                           else None)
        in if tool s \<noteq> Draw \<and> clickedAtom = None \<and> clickedBond = None then
             s\<lparr> isPanning := True, panStart := Some (clientX e, clientY e) \<rparr>
           else if tool s = Erase then
             (case clickedAtom of
                Some ca \<Rightarrow>
                  commitToHistory
                    (filter (\<lambda>a. atom_id a \<noteq> atom_id ca) (atoms s))
                    (filter (\<lambda>b. source b \<noteq> atom_id ca \<and> target b \<noteq> atom_id ca) (bonds s)) s
              | None \<Rightarrow>
                  (case clickedBond of
                     Some cb \<Rightarrow>
                       commitToHistory (atoms s)
                         (filter (\<lambda>b. bond_id b \<noteq> bond_id cb) (bonds s)) s
                   | None \<Rightarrow> s))
           else if tool s = Select then
             (case clickedAtom of
                Some ca \<Rightarrow> s\<lparr> dragStart := Some (anchorAt ca), isDragging := True \<rparr>
              | None \<Rightarrow> s)
             \<lparr> pointerPos := Some (x, y) \<rparr>
           else
             (case clickedAtom of
                Some ca \<Rightarrow> s\<lparr> dragStart := Some (anchorAt ca) \<rparr>
              | None \<Rightarrow>
                  (case clickedBond of
                     Some cb \<Rightarrow>
                       commitToHistory (atoms s)
                         (map (\<lambda>b. if bond_id b = bond_id cb
                                    then b\<lparr> btype := nextType (btype b) \<rparr> else b) (bonds s)) s
                   | None \<Rightarrow>
                       s\<lparr> atoms := atoms s @ [addAtom newId x y (activeElement s)],
                          dragStart := Some \<lparr> ds_id = newId, ds_x = x, ds_y = y \<rparr> \<rparr>))
             \<lparr> isDragging := True, pointerPos := Some (x, y) \<rparr>)"

definition handlePointerMove :: "Props \<Rightarrow> PointerEvent \<Rightarrow> Editor \<Rightarrow> Editor" where
  "handlePointerMove p e s =
     (if isReadOnly p then s
      else if isPanning s \<and> panStart s \<noteq> None then
        (case panStart s of
           None \<Rightarrow> s
         | Some ps \<Rightarrow>
             (let dx = clientX e - fst ps; dy = clientY e - snd ps
              in s\<lparr> view := (view s)\<lparr> view_x := view_x (view s) + dx,
                                       view_y := view_y (view s) + dy \<rparr>,
                     panStart := Some (clientX e, clientY e) \<rparr>))
      else
        let coords = getPointerCoords p (view s) e
        in if tool s = Select \<and> isDragging s \<and> dragStart s \<noteq> None then
             (case dragStart s of
                None \<Rightarrow> s
              | Some d \<Rightarrow>
                  s\<lparr> atoms := map (\<lambda>a. if atom_id a = ds_id d
                                        then a\<lparr> atom_x := fst coords, atom_y := snd coords \<rparr>
                                        else a) (atoms s),
                     pointerPos := Some coords \<rparr>)
           else if tool s = Draw then
             (case (if isDragging s then dragStart s else None) of
                None \<Rightarrow>
                  s\<lparr> hoveredAtom :=
                       map_option atom_id (find (\<lambda>a. distance (pos a) coords < 15) (atoms s)) \<rparr>
              | Some d \<Rightarrow>
                  (let snappedPos = snapToAngle (ds_x d) (ds_y d) (fst coords) (snd coords);
                       snapTarget =
                         find (\<lambda>a. atom_id a \<noteq> ds_id d
                                   \<and> (distance (pos a) coords < BOND_SNAP_DIST
                                      \<or> distance (pos a) snappedPos < BOND_SNAP_DIST)) (atoms s)
                   in case snapTarget of
                        Some st \<Rightarrow> s\<lparr> pointerPos := Some (atom_x st, atom_y st),
                                     snapTargetId := Some (atom_id st) \<rparr>
                      | None \<Rightarrow> s\<lparr> pointerPos := Some snappedPos, snapTargetId := None \<rparr>))
           else s)"

text \<open>The test of \<open>findIndex\<close> in \<open>handlePointerUp\<close>: a bond joining two ids, either way round.\<close>

definition bondBetween :: "string \<Rightarrow> string \<Rightarrow> BondData \<Rightarrow> bool" where
  "bondBetween a t b = ((source b = a \<and> target b = t) \<or> (source b = t \<and> target b = a))"

text \<open>
  The draw branch of \<open>handlePointerUp\<close>, entered with the anchor \<open>d\<close> and the tracked
  pointer position \<open>pp\<close>. \<open>!targetId\<close> holds for \<open>null\<close> and for the empty string, and so
  does the failure of the guard \<open>targetId && ...\<close>.
\<close>

definition drawRelease :: "string \<Rightarrow> string \<Rightarrow> DragStart \<Rightarrow> vec2 \<Rightarrow> Editor \<Rightarrow> Editor" where
  "drawRelease newAtomId newBondId d pp s =
     (let dist = distance (ds_x d, ds_y d) pp
      in if dist < 5 then
           (case find (\<lambda>a. atom_id a = ds_id d) (atoms s) of
              Some targetAtom \<Rightarrow>
                commitToHistory
                  (map (\<lambda>a. if atom_id a = atom_id targetAtom
                             then a\<lparr> element := activeElement s \<rparr> else a) (atoms s))
                  (bonds s) s
            | None \<Rightarrow> s)
         else
           let fresh = (case snapTargetId s of None \<Rightarrow> True | Some t \<Rightarrow> t = []);
               newAtoms = (if fresh
                           then atoms s @ [addAtom newAtomId (fst pp) (snd pp) (activeElement s)]
                           else atoms s);
               targetId = (case snapTargetId s of
                             None \<Rightarrow> newAtomId
                           | Some t \<Rightarrow> if t = [] then newAtomId else t)
           in if targetId \<noteq> [] \<and> targetId \<noteq> ds_id d then
                (case findIndex (bondBetween (ds_id d) targetId) (bonds s) of
                   Some i \<Rightarrow>
                     commitToHistory newAtoms
                       ((bonds s)[i := (bonds s ! i)\<lparr> btype := nextType (btype (bonds s ! i)) \<rparr>]) s
                 | None \<Rightarrow>
                     commitToHistory newAtoms
                       (bonds s @ [\<lparr> bond_id = newBondId, source = ds_id d,
                                     target = targetId, btype = 1 \<rparr>]) s)
              else commitToHistory newAtoms (bonds s) s)"

definition handlePointerUp :: "Props \<Rightarrow> string \<Rightarrow> string \<Rightarrow> Editor \<Rightarrow> Editor" where
  "handlePointerUp p newAtomId newBondId s =
     (if isReadOnly p then s
      else if isPanning s then s\<lparr> isPanning := False, panStart := None \<rparr>
      else if tool s = Select \<and> isDragging s then
        (commitToHistory (atoms s) (bonds s) s)\<lparr> isDragging := False, dragStart := None \<rparr>
      else
        (if tool s = Draw \<and> isDragging s then
           (case dragStart s of
              None \<Rightarrow> s
            | Some d \<Rightarrow>
                (case pointerPos s of
                   None \<Rightarrow> s
                 | Some pp \<Rightarrow> drawRelease newAtomId newBondId d pp s))
         else s)
        \<lparr> dragStart := None, isDragging := False, hoveredAtom := None,
          snapTargetId := None, pointerPos := None \<rparr>)"

section \<open>Bond geometry\<close>

record MinAngle =
  minRight :: real
  minLeft :: real
  existsRight :: bool
  existsLeft :: bool

text \<open>
  The vectors from the atom \<open>atomId\<close> along its other bonds (\<open>neighbors\<close> in
  \<open>getMinAngle\<close>); a bond whose far atom is missing gives the zero vector.
\<close>

definition neighbors :: "AtomData list \<Rightarrow> BondData list \<Rightarrow> string \<Rightarrow> AtomData \<Rightarrow> AtomData
    \<Rightarrow> BondData \<Rightarrow> vec2 list" where
  "neighbors ats bs atomId s t b =
     map (\<lambda>bond.
            let otherId = (if source bond = atomId then target bond else source bond);
                other = find (\<lambda>a. atom_id a = otherId) ats;
                myAtom = (if atomId = atom_id s then s else t)
            in case other of Some ot \<Rightarrow> vec_sub (pos ot) (pos myAtom) | None \<Rightarrow> (0, 0))
         (filter (\<lambda>bond. (source bond = atomId \<or> target bond = atomId) \<and> bond_id bond \<noteq> bond_id b)
            bs)"

text \<open>One round of the \<open>forEach\<close> of \<open>getMinAngle\<close>.\<close>

definition minAngleStep :: "vec2 \<Rightarrow> vec2 \<Rightarrow> MinAngle \<Rightarrow> vec2 \<Rightarrow> MinAngle" where
  "minAngleStep axis myAxis acc nb =
     (let cross = vec_cross axis nb;
          ang = vec_angle myAxis nb
      in if cross > 0 then
           acc\<lparr> minRight := (if ang < minRight acc then ang else minRight acc),
                existsRight := True \<rparr>
         else
           acc\<lparr> minLeft := (if ang < minLeft acc then ang else minLeft acc),
                existsLeft := True \<rparr>)"

definition getMinAngle :: "AtomData list \<Rightarrow> BondData list \<Rightarrow> string \<Rightarrow> AtomData \<Rightarrow> AtomData
    \<Rightarrow> BondData \<Rightarrow> vec2 \<Rightarrow> MinAngle" where
  "getMinAngle ats bs atomId s t b axis =
     (let myAxis = (if atomId = atom_id s then axis else vec_scale axis (- 1))
      in foldl (minAngleStep axis myAxis)
           \<lparr> minRight = 999, minLeft = 999, existsRight = False, existsLeft = False \<rparr>
           (neighbors ats bs atomId s t b))"

record Line =
  x1 :: real
  y1 :: real
  x2 :: real
  y2 :: real

definition offset :: real where
  "offset = 6"

text \<open>
  \<open>Math.min(len * 0.5, offset * Math.tan(Math.PI / 2 - theta / 2))\<close>. For \<open>theta = 0\<close> the
  argument of the tangent is the double nearest to pi / 2, whose tangent is about 1.6e16,
  so the minimum is the half length there; HOL's \<open>tan (pi / 2)\<close> is 0 and is not used.
\<close>

definition shortenBy :: "real \<Rightarrow> real \<Rightarrow> real" where
  "shortenBy len theta =
     (if theta = 0 then len * 0.5 else min (len * 0.5) (offset * tan (pi / 2 - theta / 2)))"

text \<open>
  The offset line on one side, as computed (by the same statements) in the order-3 and the
  order-2 branch of \<open>getBondCoords\<close>.
\<close>

definition offsetLine :: "AtomData \<Rightarrow> AtomData \<Rightarrow> vec2 \<Rightarrow> vec2 \<Rightarrow> real \<Rightarrow> MinAngle \<Rightarrow> MinAngle
    \<Rightarrow> bool \<Rightarrow> Line" where
  "offsetLine s t n perp len sAng tAng drawOnRight =
     (let shift = (if drawOnRight then offset else - offset);
          shiftVec = (fst perp * shift, snd perp * shift);
          p1 = (atom_x s + fst shiftVec, atom_y s + snd shiftVec);
          p2 = (atom_x t + fst shiftVec, atom_y t + snd shiftVec);
          sShorten = shortenBy len (min (minRight sAng) (minLeft sAng));
          tShorten = shortenBy len (min (minRight tAng) (minLeft tAng));
          sShortenVec = vec_scale n sShorten;
          tShortenVec = vec_scale n tShorten;
          p1' = (if (if drawOnRight then existsRight sAng else existsLeft sAng)
                 then vec_add p1 sShortenVec else p1);
          p2' = (if (if drawOnRight then existsRight tAng else existsLeft tAng)
                 then vec_sub p2 tShortenVec else p2)
      in \<lparr> x1 = fst p1', y1 = snd p1', x2 = fst p2', y2 = snd p2' \<rparr>)"

definition centerLine :: "AtomData \<Rightarrow> AtomData \<Rightarrow> Line" where
  "centerLine s t = \<lparr> x1 = atom_x s, y1 = atom_y s, x2 = atom_x t, y2 = atom_y t \<rparr>"

text \<open>The line from s to t moved by \<open>perp * k\<close>.\<close>

definition shiftedLine :: "AtomData \<Rightarrow> AtomData \<Rightarrow> vec2 \<Rightarrow> real \<Rightarrow> Line" where
  "shiftedLine s t perp k =
     \<lparr> x1 = atom_x s + fst perp * k, y1 = atom_y s + snd perp * k,
       x2 = atom_x t + fst perp * k, y2 = atom_y t + snd perp * k \<rparr>"

definition getBondCoords :: "AtomData list \<Rightarrow> BondData list \<Rightarrow> BondData \<Rightarrow> Line list option" where
  "getBondCoords ats bs b =
     (case find (\<lambda>a. atom_id a = source b) ats of
        None \<Rightarrow> None
      | Some s \<Rightarrow>
          (case find (\<lambda>a. atom_id a = target b) ats of
             None \<Rightarrow> None
           | Some t \<Rightarrow>
               (let v = vec_sub (pos t) (pos s);
                    len = vec_len v;
                    n = vec_norm v;
                    perp = (- snd n, fst n)
                in if btype b = 1 then Some [centerLine s t]
                   else if btype b = 3 \<and> element s \<noteq> ''C'' \<and> element t \<noteq> ''C'' then
                     Some [centerLine s t, shiftedLine s t perp offset,
                           shiftedLine s t perp (- offset)]
                   else if btype b = 3 then
                     (let sAng = getMinAngle ats bs (atom_id s) s t b v;
                          tAng = getMinAngle ats bs (atom_id t) s t b v
                      in Some (centerLine s t
                               # map (offsetLine s t n perp len sAng tAng) [True, False]))
                   else if btype b = 2 \<and> element s \<noteq> ''C'' \<and> element t \<noteq> ''C'' then
                     Some [shiftedLine s t perp (offset * 0.5),
                           shiftedLine s t perp (- (offset * 0.5))]
                   else if btype b = 2 then
                     (let sAng = getMinAngle ats bs (atom_id s) s t b v;
                          tAng = getMinAngle ats bs (atom_id t) s t b v;
                          scoreRight = (if existsRight sAng then minRight sAng else pi)
                                       + (if existsRight tAng then minRight tAng else pi);
                          scoreLeft = (if existsLeft sAng then minLeft sAng else pi)
                                      + (if existsLeft tAng then minLeft tAng else pi);
                          drawOnRight = (scoreRight < scoreLeft)
                      in Some [centerLine s t, offsetLine s t n perp len sAng tAng drawOnRight])
                   else None)))"

section \<open>Prop synchronisation\<close>

text \<open>
  The \<open>value\<close> prop. Its \<open>atoms\<close> and \<open>bonds\<close> fields are tested with \<open>Array.isArray\<close>,
  so they may be absent, present but no array, or an array; the other fields are absent
  or carry a value of their type.
\<close>

datatype 'a jsfield = Absent | NotArray | IsArray "'a list"

record Value =
  v_atoms :: "AtomData jsfield"
  v_bonds :: "BondData jsfield"
  v_history :: "HistoryState list option"
  v_historyIndex :: "int option"
  v_tool :: "ToolType option"
  v_activeElement :: "string option"
  v_view :: "View option"

text \<open>
  The two texts that the effect compares are produced by \<open>JSON.stringify\<close> from object
  literals; they are modelled by the structure they print, keys in the order written.
\<close>

datatype json = JNum real | JStr string | JArr "json list" | JObj "(string \<times> json) list"

definition jsonAtom :: "AtomData \<Rightarrow> json" where
  "jsonAtom a = JObj [(''id'', JStr (atom_id a)), (''x'', JNum (atom_x a)),
                      (''y'', JNum (atom_y a)), (''element'', JStr (element a))]"

definition jsonBond :: "BondData \<Rightarrow> json" where
  "jsonBond b = JObj [(''id'', JStr (bond_id b)), (''source'', JStr (source b)),
                      (''target'', JStr (target b)), (''type'', JNum (of_int (btype b)))]"

definition jsonView :: "View \<Rightarrow> json" where
  "jsonView w = JObj [(''x'', JNum (view_x w)), (''y'', JNum (view_y w)), (''k'', JNum (view_k w))]"

fun toolName :: "ToolType \<Rightarrow> string" where
  "toolName Select = ''select''"
| "toolName Draw = ''draw''"
| "toolName Erase = ''erase''"

definition orElse :: "'a option \<Rightarrow> 'a \<Rightarrow> 'a" where
  "orElse v cur = (case v of None \<Rightarrow> cur | Some x \<Rightarrow> x)"

definition currentJSON :: "Editor \<Rightarrow> json" where
  "currentJSON s =
     JObj [(''atoms'', JArr (map jsonAtom (atoms s))), (''bonds'', JArr (map jsonBond (bonds s))),
           (''historyIndex'', JNum (of_int (historyIndex s))),
           (''tool'', JStr (toolName (tool s))), (''activeElement'', JStr (activeElement s))]"

definition newJSON :: "Value \<Rightarrow> AtomData list \<Rightarrow> BondData list \<Rightarrow> Editor \<Rightarrow> json" where
  "newJSON v a b s =
     JObj [(''atoms'', JArr (map jsonAtom a)), (''bonds'', JArr (map jsonBond b)),
           (''historyIndex'', JNum (of_int (orElse (v_historyIndex v) (historyIndex s)))),
           (''tool'', JStr (toolName (orElse (v_tool v) (tool s)))),
           (''activeElement'', JStr (orElse (v_activeElement v) (activeElement s))),
           (''view'', jsonView (orElse (v_view v) (view s)))]"

text \<open>
  The setters run under \<open>if (value.f)\<close>, which an array, an object and a non-empty string
  pass and the empty string does not; the history index is set when it is a number.
\<close>

definition adopt :: "Value \<Rightarrow> AtomData list \<Rightarrow> BondData list \<Rightarrow> Editor \<Rightarrow> Editor" where
  "adopt v a b s =
     s\<lparr> atoms := a, bonds := b,
        history := orElse (v_history v) (history s),
        historyIndex := orElse (v_historyIndex v) (historyIndex s),
        tool := orElse (v_tool v) (tool s),
        activeElement := (case v_activeElement v of
                            None \<Rightarrow> activeElement s
                          | Some el \<Rightarrow> if el = [] then activeElement s else el),
        view := orElse (v_view v) (view s) \<rparr>"

definition propSync :: "Value option \<Rightarrow> Editor \<Rightarrow> Editor" where
  "propSync value s =
     (case value of
        None \<Rightarrow> s
      | Some v \<Rightarrow>
          (case v_atoms v of
             IsArray a \<Rightarrow>
               (case v_bonds v of
                  IsArray b \<Rightarrow> if currentJSON s \<noteq> newJSON v a b s then adopt v a b s else s
                | _ \<Rightarrow> s)
           | _ \<Rightarrow> s))"

section \<open>The editor as a transition system\<close>

text \<open>
  One event of the editor: a pointer or wheel event, a button of the toolbar, or a change
  of the \<open>value\<close> prop, on which the synchronisation effect runs. An event that creates
  atoms or bonds carries the ids that \<open>Math.random\<close> yields. An exception thrown by
  \<open>undo\<close> or \<open>redo\<close> leaves the state as it was.
\<close>

datatype Event =
    PointerDown PointerEvent string
  | PointerMove PointerEvent
  | PointerUp string string
  | Wheel WheelEvent
  | UndoClick
  | RedoClick
  | ClearClick
  | ToolClick ToolType
  | ElementClick string
  | ValueSync "Value option"

fun step :: "Props \<Rightarrow> Editor \<Rightarrow> Event \<Rightarrow> Editor" where
  "step p s (PointerDown e newId) = handlePointerDown p e newId s"
| "step p s (PointerMove e) = handlePointerMove p e s"
| "step p s (PointerUp newAtomId newBondId) = handlePointerUp p newAtomId newBondId s"
| "step p s (Wheel e) = handleWheel p e s"
| "step p s UndoClick = (case undo s of Inl _ \<Rightarrow> s | Inr s' \<Rightarrow> s')"
| "step p s RedoClick = (case redo s of Inl _ \<Rightarrow> s | Inr s' \<Rightarrow> s')"
| "step p s ClearClick = clearCanvas p s"
| "step p s (ToolClick t) = handleSetTool t s"
| "step p s (ElementClick el) = handleSetElement el s"
| "step p s (ValueSync v) = propSync v s"

definition run :: "Props \<Rightarrow> Editor \<Rightarrow> Event list \<Rightarrow> Editor" where
  "run p s evs = foldl (step p) s evs"

section \<open>Predicates of the statements\<close>

text \<open>Every bond of the graph has both endpoint ids among the ids of the atoms.\<close>

definition noDangling :: "AtomData list \<Rightarrow> BondData list \<Rightarrow> bool" where
  "noDangling ats bs =
     list_all (\<lambda>b. source b \<in> set (map atom_id ats) \<and> target b \<in> set (map atom_id ats)) bs"

definition snapshotOk :: "HistoryState \<Rightarrow> bool" where
  "snapshotOk h = noDangling (h_atoms h) (h_bonds h)"

text \<open>No gesture holds an anchor or a snap target.\<close>

definition idle :: "Editor \<Rightarrow> bool" where
  "idle s = (dragStart s = None \<and> snapTargetId s = None)"

text \<open>
  A value that the host may supply: when its atoms and bonds are arrays, they form a graph
  without a dangling bond, and so does every entry of its history (if it has one).
\<close>

definition cleanValue :: "Value option \<Rightarrow> bool" where
  "cleanValue value =
     (case value of
        None \<Rightarrow> True
      | Some v \<Rightarrow>
          (case v_atoms v of
             IsArray a \<Rightarrow>
               (case v_bonds v of
                  IsArray b \<Rightarrow>
                    noDangling a b
                    \<and> (case v_history v of None \<Rightarrow> True | Some h \<Rightarrow> list_all snapshotOk h)
                | _ \<Rightarrow> True)
           | _ \<Rightarrow> True))"

text \<open>
  The events of an undisturbed gesture. Pointer and wheel events, the element buttons and
  the select and draw tool buttons may come at any time; the undo, redo and clear buttons,
  the erase tool button and a change of the value prop (to a clean value) come only while
  no gesture holds an anchor or a snap target.
\<close>

fun permitted :: "Editor \<Rightarrow> Event \<Rightarrow> bool" where
  "permitted s (PointerDown e newId) = True"
| "permitted s (PointerMove e) = True"
| "permitted s (PointerUp a b) = True"
| "permitted s (Wheel e) = True"
| "permitted s (ElementClick el) = True"
| "permitted s (ToolClick t) = (t \<noteq> Erase \<or> idle s)"
| "permitted s UndoClick = idle s"
| "permitted s RedoClick = idle s"
| "permitted s ClearClick = idle s"
| "permitted s (ValueSync v) = (idle s \<and> cleanValue v)"

fun gestureAtomic :: "Props \<Rightarrow> Editor \<Rightarrow> Event list \<Rightarrow> bool" where
  "gestureAtomic p s [] = True"
| "gestureAtomic p s (e # es) = (permitted s e \<and> gestureAtomic p (step p s e) es)"

text \<open>
  The invariant of such traces: the live graph and every history entry have no dangling
  bond, the anchor and the snap target of a gesture are atoms of the live graph, and the
  erase tool holds neither.
\<close>

fun idAmong :: "string option \<Rightarrow> AtomData list \<Rightarrow> bool" where
  "idAmong None ats = True"
| "idAmong (Some t) ats = (t \<in> set (map atom_id ats))"

definition gestureInv :: "Editor \<Rightarrow> bool" where
  "gestureInv s =
     (noDangling (atoms s) (bonds s) \<and> list_all snapshotOk (history s)
      \<and> idAmong (map_option ds_id (dragStart s)) (atoms s)
      \<and> idAmong (snapTargetId s) (atoms s)
      \<and> (tool s = Erase \<longrightarrow> idle s))"

text \<open>The index of the history stack points at one of its entries.\<close>

definition hist_ok :: "Editor \<Rightarrow> bool" where
  "hist_ok s = (0 \<le> historyIndex s \<and> historyIndex s < int (length (history s)))"

text \<open>The table of valences as a total function, with 0 for a symbol outside the table.\<close>

definition tableValence :: "string \<Rightarrow> int" where
  "tableValence e = (case VALENCE e of None \<Rightarrow> 0 | Some v \<Rightarrow> v)"

definition water_O :: AtomData where
  "water_O = \<lparr> atom_id = ''o1'', atom_x = 0, atom_y = 0, element = ''O'' \<rparr>"

definition lone_H :: AtomData where
  "lone_H = \<lparr> atom_id = ''h1'', atom_x = 0, atom_y = 0, element = ''H'' \<rparr>"

definition snap0 :: HistoryState where
  "snap0 = \<lparr> h_atoms = [], h_bonds = [] \<rparr>"

definition snap1 :: HistoryState where
  "snap1 = \<lparr> h_atoms = [water_O], h_bonds = [] \<rparr>"

definition snap2 :: HistoryState where
  "snap2 = \<lparr> h_atoms = [water_O, lone_H], h_bonds = [] \<rparr>"

definition midHistory :: Editor where
  "midHistory = initialEditor\<lparr> history := [snap0, snap1, snap2], historyIndex := 1,
                               atoms := [water_O] \<rparr>"


text \<open>
  An atom other than the anchor that lies less than 20 units from the raw pointer position
  or from the angle-snapped candidate.
\<close>

definition nearTarget :: "DragStart \<Rightarrow> vec2 \<Rightarrow> vec2 \<Rightarrow> AtomData \<Rightarrow> bool" where
  "nearTarget d raw cand a =
     (atom_id a \<noteq> ds_id d \<and> (distance (pos a) raw < 20 \<or> distance (pos a) cand < 20))"

section \<open>Quantities of the geometry statements\<close>

text \<open>The bond axis as seen from the endpoint \<open>atomId\<close>: towards the other endpoint.\<close>

definition axisFrom :: "string \<Rightarrow> AtomData \<Rightarrow> vec2 \<Rightarrow> vec2" where
  "axisFrom atomId s axis = (if atomId = atom_id s then axis else vec_scale axis (- 1))"

text \<open>
  The angles between the bond and the neighbouring bonds of the endpoint \<open>atomId\<close> that
  lie on one side of the axis from s to t: the right side holds the neighbours whose cross
  product with the axis is positive, the left side all others.
\<close>

definition sideAngles :: "AtomData list \<Rightarrow> BondData list \<Rightarrow> BondData \<Rightarrow> AtomData \<Rightarrow> AtomData
    \<Rightarrow> bool \<Rightarrow> string \<Rightarrow> real list" where
  "sideAngles ats bs b s t right atomId =
     (let axis = vec_sub (pos t) (pos s)
      in map (vec_angle (axisFrom atomId s axis))
           (filter (\<lambda>nb. (vec_cross axis nb > 0) = right) (neighbors ats bs atomId s t b)))"

definition allAngles :: "AtomData list \<Rightarrow> BondData list \<Rightarrow> BondData \<Rightarrow> AtomData \<Rightarrow> AtomData
    \<Rightarrow> string \<Rightarrow> real list" where
  "allAngles ats bs b s t atomId =
     (let axis = vec_sub (pos t) (pos s)
      in map (vec_angle (axisFrom atomId s axis)) (neighbors ats bs atomId s t b))"

definition smallest :: "real \<Rightarrow> real list \<Rightarrow> real" where
  "smallest d xs = (if xs = [] then d else Min (set xs))"

text \<open>
  The score of a side: the smallest same-side angle at each endpoint, pi where the
  endpoint has no neighbour on that side, summed over the two endpoints.
\<close>

definition sideScore :: "AtomData list \<Rightarrow> BondData list \<Rightarrow> BondData \<Rightarrow> AtomData \<Rightarrow> AtomData
    \<Rightarrow> bool \<Rightarrow> real" where
  "sideScore ats bs b s t right =
     smallest pi (sideAngles ats bs b s t right (atom_id s))
     + smallest pi (sideAngles ats bs b s t right (atom_id t))"

text \<open>
  The amount by which \<open>getBondCoords\<close> shortens an offset line on one side at an endpoint,
  in closed form: nothing without a neighbour on that side; otherwise its \<open>sShorten\<close> or
  \<open>tShorten\<close>, computed from \<open>Math.min(minRight, minLeft)\<close>.
\<close>

definition trimAt :: "AtomData list \<Rightarrow> BondData list \<Rightarrow> BondData \<Rightarrow> AtomData \<Rightarrow> AtomData
    \<Rightarrow> bool \<Rightarrow> string \<Rightarrow> real" where
  "trimAt ats bs b s t right atomId =
     (let len = vec_len (vec_sub (pos t) (pos s))
      in if sideAngles ats bs b s t right atomId = [] then 0
         else
           let theta = Min (set (allAngles ats bs b s t atomId))
           in if theta = 0 then len / 2 else min (len / 2) (6 * tan ((pi - theta) / 2)))"

text \<open>
  The line parallel to the bond from s to t at the signed distance k on the perpendicular
  (-n.y, n.x), starting a units after s and ending c units before t.
\<close>

definition parallelLine :: "AtomData \<Rightarrow> AtomData \<Rightarrow> real \<Rightarrow> real \<Rightarrow> real \<Rightarrow> Line" where
  "parallelLine s t k a c =
     (let n = vec_norm (vec_sub (pos t) (pos s));
          perp = (- snd n, fst n)
      in \<lparr> x1 = atom_x s + fst perp * k + fst n * a, y1 = atom_y s + snd perp * k + snd n * a,
           x2 = atom_x t + fst perp * k - fst n * c, y2 = atom_y t + snd perp * k - snd n * c \<rparr>)"

definition trimmedLine :: "AtomData list \<Rightarrow> BondData list \<Rightarrow> BondData \<Rightarrow> AtomData \<Rightarrow> AtomData
    \<Rightarrow> bool \<Rightarrow> Line" where
  "trimmedLine ats bs b s t right =
     parallelLine s t (if right then 6 else - 6)
       (trimAt ats bs b s t right (atom_id s)) (trimAt ats bs b s t right (atom_id t))"

text \<open>
  The shortening computed from the neighbours of one side only: nothing without a
  neighbour on that side; otherwise, with theta the smallest angle between the bond and
  the neighbouring bonds on that side, the half length capped by
  6 * tan ((pi - theta) / 2), and the half length for theta = 0.
\<close>

definition sideTrim :: "AtomData list \<Rightarrow> BondData list \<Rightarrow> BondData \<Rightarrow> AtomData \<Rightarrow> AtomData
    \<Rightarrow> bool \<Rightarrow> string \<Rightarrow> real" where
  "sideTrim ats bs b s t right atomId =
     (let len = vec_len (vec_sub (pos t) (pos s))
      in if sideAngles ats bs b s t right atomId = [] then 0
         else
           let theta = Min (set (sideAngles ats bs b s t right atomId))
           in if theta = 0 then len / 2 else min (len / 2) (6 * tan ((pi - theta) / 2)))"

text \<open>
  At the endpoint, no neighbouring bond on the other side makes a smaller angle with the
  bond than the smallest angle on this side.
\<close>

definition sameSideLeast :: "AtomData list \<Rightarrow> BondData list \<Rightarrow> BondData \<Rightarrow> AtomData \<Rightarrow> AtomData
    \<Rightarrow> bool \<Rightarrow> string \<Rightarrow> bool" where
  "sameSideLeast ats bs b s t right atomId =
     (sideAngles ats bs b s t right atomId = []
      \<or> (\<forall>x\<in>set (sideAngles ats bs b s t (\<not> right) atomId).
            Min (set (sideAngles ats bs b s t right atomId)) \<le> x))"

text \<open>
  The point a units after s, and the point c units before t, on the parallel to the bond
  at the signed distance k on the perpendicular (-n.y, n.x).
\<close>

definition pointAfter :: "AtomData \<Rightarrow> AtomData \<Rightarrow> real \<Rightarrow> real \<Rightarrow> vec2" where
  "pointAfter s t k a =
     (let n = vec_norm (vec_sub (pos t) (pos s)); perp = (- snd n, fst n)
      in (atom_x s + fst perp * k + fst n * a, atom_y s + snd perp * k + snd n * a))"

definition pointBefore :: "AtomData \<Rightarrow> AtomData \<Rightarrow> real \<Rightarrow> real \<Rightarrow> vec2" where
  "pointBefore s t k c =
     (let n = vec_norm (vec_sub (pos t) (pos s)); perp = (- snd n, fst n)
      in (atom_x t + fst perp * k - fst n * c, atom_y t + snd perp * k - snd n * c))"

text \<open>
  A segment is the offset line of one side: it starts a units after s and ends c units
  before t on the parallel at distance 6 on that side, with a and c between 0 and the
  half length; at each endpoint where the same side has the smallest angle, the amount
  is the shortening of that side.
\<close>

definition offsetOnSide :: "AtomData list \<Rightarrow> BondData list \<Rightarrow> BondData \<Rightarrow> AtomData \<Rightarrow> AtomData
    \<Rightarrow> bool \<Rightarrow> Line \<Rightarrow> bool" where
  "offsetOnSide ats bs b s t right seg =
     (\<exists>a c. 0 \<le> a \<and> a \<le> vec_len (vec_sub (pos t) (pos s)) / 2
          \<and> 0 \<le> c \<and> c \<le> vec_len (vec_sub (pos t) (pos s)) / 2
          \<and> (x1 seg, y1 seg) = pointAfter s t (if right then 6 else - 6) a
          \<and> (x2 seg, y2 seg) = pointBefore s t (if right then 6 else - 6) c
          \<and> (sameSideLeast ats bs b s t right (atom_id s) \<longrightarrow>
                a = sideTrim ats bs b s t right (atom_id s))
          \<and> (sameSideLeast ats bs b s t right (atom_id t) \<longrightarrow>
                c = sideTrim ats bs b s t right (atom_id t)))"

text \<open>
  The shortening as the specification words it: the half length capped by
  6 / tan ((pi - theta) / 2), with theta the smallest angle to a neighbouring bond on the
  same side.
\<close>

definition claimedTrim :: "AtomData list \<Rightarrow> BondData list \<Rightarrow> BondData \<Rightarrow> AtomData \<Rightarrow> AtomData
    \<Rightarrow> bool \<Rightarrow> string \<Rightarrow> real" where
  "claimedTrim ats bs b s t right atomId =
     (let len = vec_len (vec_sub (pos t) (pos s))
      in if sideAngles ats bs b s t right atomId = [] then 0
         else min (len / 2)
                (6 / tan ((pi - Min (set (sideAngles ats bs b s t right atomId))) / 2)))"

section \<open>Example scenes\<close>

definition props0 :: Props where
  "props0 = \<lparr> isReadOnly = False, svgRect = Some (0, 0) \<rparr>"

definition pev :: "real \<Rightarrow> real \<Rightarrow> PointerEvent" where
  "pev x y = \<lparr> clientX = x, clientY = y \<rparr>"

definition wheel0 :: WheelEvent where
  "wheel0 = \<lparr> clientX = 10, clientY = 20, deltaY = 100 \<rparr>"

definition atomA :: AtomData where
  "atomA = \<lparr> atom_id = ''a'', atom_x = 0, atom_y = 0, element = ''C'' \<rparr>"

definition atomB :: AtomData where
  "atomB = \<lparr> atom_id = ''b'', atom_x = 60, atom_y = 0, element = ''C'' \<rparr>"

definition bondAB :: BondData where
  "bondAB = \<lparr> bond_id = ''ab'', source = ''a'', target = ''b'', btype = 1 \<rparr>"

text \<open>Two carbons joined by a single bond, committed as the second history entry.\<close>

definition ethane :: Editor where
  "ethane = initialEditor\<lparr> atoms := [atomA, atomB], bonds := [bondAB],
     history := [\<lparr> h_atoms = [], h_bonds = [] \<rparr>,
                 \<lparr> h_atoms = [atomA, atomB], h_bonds = [bondAB] \<rparr>],
     historyIndex := 1 \<rparr>"

text \<open>One drag with the draw tool from the first carbon onto the second.\<close>

definition dragAB :: "Event list" where
  "dragAB = [PointerDown (pev 0 0) ''x1'', PointerMove (pev 60 0), PointerUp ''x2'' ''x3'']"

definition midDragAB :: Editor where
  "midDragAB = ethane\<lparr> dragStart := Some (anchorAt atomA), pointerPos := Some (60, 0),
                        isDragging := True, snapTargetId := Some ''b'' \<rparr>"

definition loneA :: Editor where
  "loneA = initialEditor\<lparr> atoms := [atomA], dragStart := Some (anchorAt atomA),
                           pointerPos := Some (0, 0), isDragging := True \<rparr>"

text \<open>
  On the empty canvas: press, drag 100 units to the right, press the clear button while
  the pointer is still down, release.
\<close>

definition clearMidDrag :: "Event list" where
  "clearMidDrag = [PointerDown (pev 0 0) ''a1'', PointerMove (pev 100 0), ClearClick,
                   PointerUp ''a2'' ''b1'']"

text \<open>The host supplies the empty graph, with no other field.\<close>

definition emptyValue :: Value where
  "emptyValue = \<lparr> v_atoms = IsArray [], v_bonds = IsArray [], v_history = None,
                   v_historyIndex = None, v_tool = None, v_activeElement = None,
                   v_view = None \<rparr>"

text \<open>
  On the empty canvas: press, drag 100 units to the right, the host supplies the empty
  graph while the pointer is still down, release.
\<close>

definition syncMidDrag :: "Event list" where
  "syncMidDrag = [PointerDown (pev 0 0) ''a1'', PointerMove (pev 100 0),
                  ValueSync (Some emptyValue), PointerUp ''a2'' ''b1'']"

text \<open>Draw a bond on the empty canvas, then choose the erase tool and erase its first atom.\<close>

definition drawThenErase :: "Event list" where
  "drawThenErase = [PointerDown (pev 0 0) ''a1'', PointerMove (pev 100 0), PointerUp ''a2'' ''b1'',
                    ToolClick Erase, PointerDown (pev 0 0) ''n1'', PointerUp ''n2'' ''n3'']"

text \<open>
  A bond from s to t of length 60 along the x axis, and one more bond from s to an atom u
  at 60 units, up and to the left of s (cosine -3/5 with the axis).
\<close>

definition atomS :: AtomData where
  "atomS = \<lparr> atom_id = ''s'', atom_x = 0, atom_y = 0, element = ''C'' \<rparr>"

definition atomT :: AtomData where
  "atomT = \<lparr> atom_id = ''t'', atom_x = 60, atom_y = 0, element = ''C'' \<rparr>"

definition atomU :: AtomData where
  "atomU = \<lparr> atom_id = ''u'', atom_x = - 36, atom_y = 48, element = ''C'' \<rparr>"

definition bondST :: "int \<Rightarrow> BondData" where
  "bondST k = \<lparr> bond_id = ''st'', source = ''s'', target = ''t'', btype = k \<rparr>"

definition bondSU :: BondData where
  "bondSU = \<lparr> bond_id = ''su'', source = ''s'', target = ''u'', btype = 1 \<rparr>"

text \<open>
  More atoms around s: w straight behind s on the axis, and v at 60 units, down and to
  the right of s (cosine 3/5 with the axis).
\<close>

definition atomW :: AtomData where
  "atomW = \<lparr> atom_id = ''w'', atom_x = - 60, atom_y = 0, element = ''C'' \<rparr>"

definition bondSW :: BondData where
  "bondSW = \<lparr> bond_id = ''sw'', source = ''s'', target = ''w'', btype = 1 \<rparr>"

definition atomV :: AtomData where
  "atomV = \<lparr> atom_id = ''v'', atom_x = 36, atom_y = - 48, element = ''C'' \<rparr>"

definition bondSV :: BondData where
  "bondSV = \<lparr> bond_id = ''sv'', source = ''s'', target = ''v'', btype = 1 \<rparr>"

definition hostValue :: Value where
  "hostValue = \<lparr> v_atoms = IsArray [atomS], v_bonds = IsArray [], v_history = None,
                  v_historyIndex = None, v_tool = Some Select, v_activeElement = None,
                  v_view = None \<rparr>"

definition badValue :: Value where
  "badValue = hostValue\<lparr> v_bonds := NotArray \<rparr>"

section \<open>Properties of the graph model\<close>

lemma foldl_btype_sum:
  "foldl (\<lambda>sum b. sum + btype b) z xs = z + sum_list (map btype xs)"
  by (induction xs arbitrary: z) auto

lemma VALENCE_nonneg: "VALENCE e = Some v \<Longrightarrow> 0 \<le> v"
  by (auto simp: VALENCE_def split: if_splits)

lemma maxValence_table: "maxValence a = tableValence (element a)"
  by (simp add: maxValence_def tableValence_def split: option.splits)

lemma tableValence_nonneg: "0 \<le> tableValence e"
  by (auto simp: tableValence_def dest: VALENCE_nonneg split: option.splits)

lemma implicitH_formula:
  "implicitH a bs =
     max 0 (tableValence (element a)
            - sum_list (map btype (filter (\<lambda>b. source b = atom_id a \<or> target b = atom_id a) bs)))"
  by (simp add: implicitH_def maxValence_table currentValence_def connectedBonds_def
      foldl_btype_sum)

text \<open>
  C4. The implicit hydrogen count of an atom is max(0, V(element) - the sum of the orders of
  the bonds that have the atom as source or target), where V is the table C:4, N:3, O:2,
  H:1, S:2, Cl:1, F:1, P:5, Br:1, I:1; for an atom with no incident bond the count is
  V(element).
\<close>

theorem implicit_hydrogen_count:
  "implicitH a bs =
     max 0 (tableValence (element a)
            - sum_list (map btype (filter (\<lambda>b. source b = atom_id a \<or> target b = atom_id a) bs)))
   \<and> tableValence ''C'' = 4 \<and> tableValence ''N'' = 3 \<and> tableValence ''O'' = 2
   \<and> tableValence ''H'' = 1 \<and> tableValence ''S'' = 2 \<and> tableValence ''Cl'' = 1
   \<and> tableValence ''F'' = 1 \<and> tableValence ''P'' = 5 \<and> tableValence ''Br'' = 1
   \<and> tableValence ''I'' = 1
   \<and> (filter (\<lambda>b. source b = atom_id a \<or> target b = atom_id a) bs = []
        \<longrightarrow> implicitH a bs = tableValence (element a))"
proof -
  have tbl: "tableValence ''C'' = 4 \<and> tableValence ''N'' = 3 \<and> tableValence ''O'' = 2
   \<and> tableValence ''H'' = 1 \<and> tableValence ''S'' = 2 \<and> tableValence ''Cl'' = 1
   \<and> tableValence ''F'' = 1 \<and> tableValence ''P'' = 5 \<and> tableValence ''Br'' = 1
   \<and> tableValence ''I'' = 1"
    by (simp add: tableValence_def VALENCE_def)
  have iso: "filter (\<lambda>b. source b = atom_id a \<or> target b = atom_id a) bs = []
        \<longrightarrow> implicitH a bs = tableValence (element a)"
    using tableValence_nonneg [of "element a"] by (simp add: implicitH_formula)
  from implicitH_formula [of a bs] tbl iso show ?thesis by blast
qed

theorem implicit_hydrogen_count_witness:
  "filter (\<lambda>b. source b = atom_id water_O \<or> target b = atom_id water_O) [] = []
   \<and> implicitH water_O [] = 2"
  using implicit_hydrogen_count [of water_O "[]"] by (simp add: water_O_def)

text \<open>
  C10. The label of a hydrogen atom whose implicit hydrogen count is positive is the
  symbol H followed by the subscript-two glyph U+2082 (not by a letter H), the element
  symbol coming first; in particular a hydrogen atom with no incident bond is labelled
  with the two code units H, U+2082.
\<close>

theorem isolated_hydrogen_label:
  "(element a = ''H'' \<and> implicitH a bs > 0 \<longrightarrow>
      getAtomLabel a bs
        = Some (ascii ''H'' @ [8322] @ (if implicitH a bs > 1 then toSubscript (implicitH a bs) else [])))
   \<and> (element a = ''H'' \<and> connectedBonds a bs = [] \<longrightarrow> getAtomLabel a bs = Some [72, 8322])"
proof -
  have two: "toSubscript 2 = [8322]"
    by (simp add: toSubscript_def numToString_def subscriptMap_def digitsOf.simps)
  have "getAtomLabel a bs
        = Some (ascii ''H'' @ [8322] @ (if implicitH a bs > 1 then toSubscript (implicitH a bs) else []))"
    if "element a = ''H''" "implicitH a bs > 0"
    using that by (simp add: getAtomLabel_def two Let_def)
  moreover have "getAtomLabel a bs = Some [72, 8322]"
    if "element a = ''H''" "connectedBonds a bs = []"
    using that
    by (simp add: getAtomLabel_def two Let_def implicitH_def maxValence_def VALENCE_def
        currentValence_def ascii_def)
  ultimately show ?thesis by blast
qed

theorem isolated_hydrogen_label_witness:
  "element lone_H = ''H'' \<and> connectedBonds lone_H [] = [] \<and> implicitH lone_H [] > 0
   \<and> getAtomLabel lone_H [] = Some [72, 8322]"
  using isolated_hydrogen_label [of lone_H "[]"]
  by (simp add: lone_H_def connectedBonds_def implicitH_def maxValence_def VALENCE_def
      currentValence_def ascii_def)

section \<open>Properties of the history stack\<close>

lemma commitToHistory_eq:
  "hist_ok s \<Longrightarrow>
   history (commitToHistory a b s)
     = take (nat (historyIndex s) + 1) (history s) @ [\<lparr> h_atoms = a, h_bonds = b \<rparr>]
   \<and> historyIndex (commitToHistory a b s) = int (length (history (commitToHistory a b s))) - 1
   \<and> historyIndex (commitToHistory a b s) = historyIndex s + 1
   \<and> atoms (commitToHistory a b s) = a \<and> bonds (commitToHistory a b s) = b"
  by (auto simp: hist_ok_def commitToHistory_def sliceTo_def Let_def nat_add_distrib min_def)

lemma undo_eq:
  "hist_ok s \<Longrightarrow> 0 < historyIndex s \<Longrightarrow>
   undo s = Inr (s\<lparr> atoms := h_atoms (history s ! nat (historyIndex s - 1)),
                   bonds := h_bonds (history s ! nat (historyIndex s - 1)),
                   historyIndex := historyIndex s - 1 \<rparr>)"
  by (auto simp: hist_ok_def undo_def nth_opt_def)

lemma redo_eq:
  "hist_ok s \<Longrightarrow> historyIndex s < int (length (history s)) - 1 \<Longrightarrow>
   redo s = Inr (s\<lparr> atoms := h_atoms (history s ! nat (historyIndex s + 1)),
                   bonds := h_bonds (history s ! nat (historyIndex s + 1)),
                   historyIndex := historyIndex s + 1 \<rparr>)"
  by (auto simp: hist_ok_def redo_def nth_opt_def)

text \<open>
  C3. For a history stack whose index points at one of its entries: a commit keeps the
  entries up to the index, appends the new snapshot, moves the index to that last entry
  and makes the snapshot the live graph; undo at an index i > 0 makes entry i - 1 the live
  graph and decrements the index; redo at an index i below the last makes entry i + 1 the
  live graph and increments the index; undo at index 0 and redo at the last index return
  the state unchanged, without an error.
\<close>

theorem history_commit_undo_redo:
  assumes "hist_ok s"
  shows
   "history (commitToHistory a b s)
      = take (nat (historyIndex s) + 1) (history s) @ [\<lparr> h_atoms = a, h_bonds = b \<rparr>]
    \<and> historyIndex (commitToHistory a b s) = int (length (history (commitToHistory a b s))) - 1
    \<and> historyIndex (commitToHistory a b s) = historyIndex s + 1
    \<and> atoms (commitToHistory a b s) = a \<and> bonds (commitToHistory a b s) = b
    \<and> (0 < historyIndex s \<longrightarrow>
         undo s = Inr (s\<lparr> atoms := h_atoms (history s ! nat (historyIndex s - 1)),
                         bonds := h_bonds (history s ! nat (historyIndex s - 1)),
                         historyIndex := historyIndex s - 1 \<rparr>))
    \<and> (historyIndex s < int (length (history s)) - 1 \<longrightarrow>
         redo s = Inr (s\<lparr> atoms := h_atoms (history s ! nat (historyIndex s + 1)),
                         bonds := h_bonds (history s ! nat (historyIndex s + 1)),
                         historyIndex := historyIndex s + 1 \<rparr>))
    \<and> (historyIndex s = 0 \<longrightarrow> undo s = Inr s)
    \<and> (historyIndex s = int (length (history s)) - 1 \<longrightarrow> redo s = Inr s)"
proof -
  have noop_undo: "historyIndex s = 0 \<longrightarrow> undo s = Inr s"
    by (simp add: undo_def)
  have noop_redo: "historyIndex s = int (length (history s)) - 1 \<longrightarrow> redo s = Inr s"
    by (simp add: redo_def)
  from commitToHistory_eq [OF assms, of a b] undo_eq [OF assms] redo_eq [OF assms]
    noop_undo noop_redo
  show ?thesis by blast
qed

theorem history_commit_undo_redo_witness:
  "hist_ok midHistory
   \<and> history (commitToHistory [lone_H] [] midHistory)
       = [snap0, snap1, \<lparr> h_atoms = [lone_H], h_bonds = [] \<rparr>]
   \<and> historyIndex (commitToHistory [lone_H] [] midHistory) = 2
   \<and> undo midHistory = Inr (midHistory\<lparr> atoms := [], bonds := [], historyIndex := 0 \<rparr>)
   \<and> redo midHistory
       = Inr (midHistory\<lparr> atoms := [water_O, lone_H], bonds := [], historyIndex := 2 \<rparr>)
   \<and> hist_ok initialEditor
   \<and> undo initialEditor = Inr initialEditor \<and> redo initialEditor = Inr initialEditor"
proof -
  have m: "hist_ok midHistory"
    by (simp add: hist_ok_def midHistory_def)
  have i: "hist_ok initialEditor"
    by (simp add: hist_ok_def initialEditor_def)
  have i0: "historyIndex initialEditor = 0" "length (history initialEditor) = 1"
    by (simp_all add: initialEditor_def)
  have m1: "historyIndex midHistory = 1" "history midHistory = [snap0, snap1, snap2]"
    by (simp_all add: midHistory_def)
  from history_commit_undo_redo [OF m, of "[lone_H]" "[]"]
       history_commit_undo_redo [OF i, of "[]" "[]"] m i
  show ?thesis
    by (simp add: m1 i0 snap0_def snap1_def snap2_def)
qed

section \<open>Properties of the view transform\<close>

text \<open>
  C8. In an editor that is not read-only and whose SVG element is mounted, with a positive
  scale k: a wheel event with delta d at the screen point p sets the scale to
  k' = clamp(k * (1 - d * 0.001), 0.1, 5), which lies in [0.1, 5], and sets the offset to
  p - w * k', where w is the world point under p at the old view; the world point under p
  at the new view is again w.
\<close>

theorem wheel_zoom_keeps_pointer_fixed:
  assumes ro: "\<not> isReadOnly p" and rect: "svgRect p = Some rect" and k: "0 < view_k (view s)"
  shows "let k' = max 0.1 (min 5 (view_k (view s) * (1 - deltaY e * 0.001)));
             px = clientX e - fst rect; py = clientY e - snd rect;
             w = getPointerCoords p (view s) e;
             s' = handleWheel p e s
         in view_k (view s') = k' \<and> 0.1 \<le> k' \<and> k' \<le> 5
            \<and> w = ((px - view_x (view s)) / view_k (view s), (py - view_y (view s)) / view_k (view s))
            \<and> view_x (view s') = px - fst w * k' \<and> view_y (view s') = py - snd w * k'
            \<and> getPointerCoords p (view s') e = w"
  using ro rect k
  by (simp add: handleWheel_def getPointerCoords_def Let_def)

theorem wheel_zoom_keeps_pointer_fixed_witness:
  "view (handleWheel props0 wheel0 initialEditor) = \<lparr> view_x = 1, view_y = 2, view_k = 0.9 \<rparr>
   \<and> getPointerCoords props0 (view initialEditor) wheel0 = (10, 20)
   \<and> getPointerCoords props0 (view (handleWheel props0 wheel0 initialEditor)) wheel0 = (10, 20)"
  using wheel_zoom_keeps_pointer_fixed [of props0 "(0, 0)" initialEditor wheel0]
  by (simp add: props0_def initialEditor_def wheel0_def Let_def getPointerCoords_def handleWheel_def)

section \<open>Properties of angle snapping\<close>

lemma atan2_range: "- pi < atan2 y x \<and> atan2 y x \<le> pi"
proof -
  have a: "- (pi/2) < arctan (y/x)" "arctan (y/x) < pi/2"
    by (rule arctan_lbound, rule arctan_ubound)
  have "x < 0 \<Longrightarrow> y \<ge> 0 \<Longrightarrow> arctan (y/x) \<le> 0"
    by (simp add: divide_nonneg_neg)
  moreover have "x < 0 \<Longrightarrow> y < 0 \<Longrightarrow> arctan (y/x) > 0"
    by (simp add: divide_neg_neg)
  ultimately show ?thesis using a pi_gt_zero unfolding atan2_def
    by (auto simp: not_less)
qed

lemma atan2_polar:
  "x = sqrt (x * x + y * y) * cos (atan2 y x) \<and> y = sqrt (x * x + y * y) * sin (atan2 y x)"
proof -
  let ?r = "sqrt (x * x + y * y)"
  have r: "?r = sqrt (x\<^sup>2 + y\<^sup>2)" by (simp add: power2_eq_square)
  consider "x > 0" | "x < 0" "y \<ge> 0" | "x < 0" "y < 0" | "x = 0" "y > 0" | "x = 0" "y < 0" | "x = 0" "y = 0"
    by linarith
  then show ?thesis
  proof cases
    case 1
    have "?r = x * sqrt (1 + (y/x)\<^sup>2)"
    proof -
      have "x\<^sup>2 + y\<^sup>2 = x\<^sup>2 * (1 + (y/x)\<^sup>2)" using 1 by (simp add: field_simps power2_eq_square)
      then show ?thesis using 1 by (simp add: r real_sqrt_mult)
    qed
    moreover have "sqrt (1 + (y/x)\<^sup>2) > 0" by (simp add: add_pos_nonneg)
    ultimately show ?thesis using 1
      by (simp add: atan2_def cos_arctan sin_arctan)
  next
    case 2
    have "?r = - x * sqrt (1 + (y/x)\<^sup>2)"
    proof -
      have "x\<^sup>2 + y\<^sup>2 = (- x)\<^sup>2 * (1 + (y/x)\<^sup>2)" using 2 by (simp add: field_simps power2_eq_square)
      then show ?thesis using 2 by (simp add: r real_sqrt_mult del: power2_minus)
    qed
    moreover have "sqrt (1 + (y/x)\<^sup>2) > 0" by (simp add: add_pos_nonneg)
    ultimately show ?thesis using 2
      by (simp add: atan2_def cos_arctan sin_arctan)
  next
    case 3
    have "?r = - x * sqrt (1 + (y/x)\<^sup>2)"
    proof -
      have "x\<^sup>2 + y\<^sup>2 = (- x)\<^sup>2 * (1 + (y/x)\<^sup>2)" using 3 by (simp add: field_simps power2_eq_square)
      then show ?thesis using 3 by (simp add: r real_sqrt_mult del: power2_minus)
    qed
    moreover have "sqrt (1 + (y/x)\<^sup>2) > 0" by (simp add: add_pos_nonneg)
    ultimately show ?thesis using 3
      by (simp add: atan2_def cos_arctan sin_arctan)
  next
    case 4 then show ?thesis by (simp add: atan2_def)
  next
    case 5 then show ?thesis by (simp add: atan2_def)
  next
    case 6 then show ?thesis by (simp add: atan2_def)
  qed
qed

lemma sqrt_3600: "sqrt 3600 = 60"
  by (rule real_sqrt_unique) simp_all

lemma snap_len: "distance (snapToAngle ax ay bx by) (ax, ay) = 60"
proof -
  have sq: "sqrt ((c * 60) * (c * 60) + (d * 60) * (d * 60)) = 60" if u: "c * c + d * d = 1" for c d :: real
  proof -
    have "(c * 60) * (c * 60) + (d * 60) * (d * 60) = 3600 * (c * c + d * d)"
      by (simp add: algebra_simps)
    then have "(c * 60) * (c * 60) + (d * 60) * (d * 60) = 3600"
      by (simp only: u mult_1_right)
    then show ?thesis by (simp only: sqrt_3600)
  qed
  have "sqrt ((cos a * 60) * (cos a * 60) + (sin a * 60) * (sin a * 60)) = 60" for a :: real
    by (rule sq) (use sin_cos_squared_add2 [of a] in \<open>simp only: power2_eq_square\<close>)
  then show ?thesis
    by (simp add: distance_def vec_len_def vec_sub_def snapToAngle_def Let_def)
qed

lemma round_snap: "\<bar>of_int (round (a / (pi/6))) * (pi/6) - a\<bar> \<le> pi / 12"
proof -
  define r where "r = (of_int (round (a / (pi/6))) :: real)"
  have "\<bar>r - a / (pi/6)\<bar> \<le> 1/2"
    unfolding r_def by (rule of_int_round_abs_le)
  then have "\<bar>r - a / (pi/6)\<bar> * (pi/6) \<le> 1/2 * (pi/6)"
    by (rule mult_right_mono) simp
  moreover have "\<bar>r - a / (pi/6)\<bar> * (pi/6) = \<bar>(r - a / (pi/6)) * (pi/6)\<bar>"
    by (simp add: abs_mult)
  moreover have "(r - a / (pi/6)) * (pi/6) = r * (pi/6) - a"
    by (simp add: algebra_simps)
  ultimately have "\<bar>r * (pi/6) - a\<bar> \<le> 1/2 * (pi/6)" by (simp only:)
  then show ?thesis unfolding r_def by simp
qed

lemma snap_east: "snapToAngle 0 0 100 0 = (60, 0)"
  by (simp add: snapToAngle_def atan2_def Let_def)

section \<open>Properties of the pointer handlers\<close>



lemma idAmong_same_ids: "idAmong t ats \<Longrightarrow> map atom_id ats' = map atom_id ats \<Longrightarrow> idAmong t ats'"
  by (cases t) (simp_all del: set_map)

lemma idAmong_mono: "idAmong t ats \<Longrightarrow> atom_id ` set ats \<subseteq> atom_id ` set ats' \<Longrightarrow> idAmong t ats'"
  by (cases t) auto

lemma noDangling_iff:
  "noDangling ats bs = (\<forall>b\<in>set bs. source b \<in> atom_id ` set ats \<and> target b \<in> atom_id ` set ats)"
  by (simp add: noDangling_def list_all_iff)

lemma noDangling_ids_mono:
  "noDangling ats bs \<Longrightarrow> atom_id ` set ats \<subseteq> atom_id ` set ats' \<Longrightarrow> set bs' \<subseteq> set bs \<Longrightarrow> noDangling ats' bs'"
  unfolding noDangling_iff by blast

lemma sliceTo_subset: "set (sliceTo xs e) \<subseteq> set xs"
  by (auto simp: sliceTo_def dest: in_set_takeD)

lemma commit_hist:
  "list_all snapshotOk (history s) \<Longrightarrow> noDangling a b \<Longrightarrow> list_all snapshotOk (history (commitToHistory a b s))"
  using sliceTo_subset [of "history s" "historyIndex s + 1"]
  by (auto simp: commitToHistory_def Let_def list_all_iff snapshotOk_def)

lemma commit_fields [simp]:
  "atoms (commitToHistory a b s) = a" "bonds (commitToHistory a b s) = b"
  "dragStart (commitToHistory a b s) = dragStart s" "snapTargetId (commitToHistory a b s) = snapTargetId s"
  "tool (commitToHistory a b s) = tool s" "pointerPos (commitToHistory a b s) = pointerPos s"
  "isDragging (commitToHistory a b s) = isDragging s"
  by (simp_all add: commitToHistory_def Let_def)

lemma gestureInv_commit:
  assumes "gestureInv s" "noDangling a b" "atom_id ` set (atoms s) \<subseteq> atom_id ` set a"
  shows "gestureInv (commitToHistory a b s)"
  using assms commit_hist [of s a b] idAmong_mono [of _ "atoms s" a]
  by (simp add: gestureInv_def idle_def)

lemma gestureInv_commit_idle:
  assumes "gestureInv s" "noDangling a b" "idle s"
  shows "gestureInv (commitToHistory a b s)"
  using assms commit_hist [of s a b]
  by (simp add: gestureInv_def idle_def)

lemma find_in: "find P xs = Some x \<Longrightarrow> x \<in> set xs \<and> P x"
  by (auto simp: find_Some_iff)

lemma inv_down: "gestureInv s \<Longrightarrow> gestureInv (handlePointerDown p e newId s)"
proof -
  assume inv: "gestureInv s"
  define x where "x = fst (getPointerCoords p (view s) e)"
  define y where "y = snd (getPointerCoords p (view s) e)"
  define ca where "ca = find (\<lambda>a. distance (pos a) (x, y) < 15) (atoms s)"
  define cb where "cb = (if ca = None then find (hitBond (atoms s) x y) (bonds s) else None)"
  have nd: "noDangling (atoms s) (bonds s)" using inv by (simp add: gestureInv_def)
  have erase_atom: "gestureInv (commitToHistory (filter (\<lambda>a. atom_id a \<noteq> i) (atoms s))
            (filter (\<lambda>b. source b \<noteq> i \<and> target b \<noteq> i) (bonds s)) s)" if "tool s = Erase" for i
  proof (rule gestureInv_commit_idle [OF inv])
    show "idle s" using inv that by (simp add: gestureInv_def)
    show "noDangling (filter (\<lambda>a. atom_id a \<noteq> i) (atoms s)) (filter (\<lambda>b. source b \<noteq> i \<and> target b \<noteq> i) (bonds s))"
      using nd by (auto simp: noDangling_iff)
  qed
  have erase_bond: "gestureInv (commitToHistory (atoms s) (filter P (bonds s)) s)" for P
    by (rule gestureInv_commit [OF inv]) (use nd in \<open>auto simp: noDangling_iff\<close>)
  have cycle_bond: "gestureInv (commitToHistory (atoms s) (map (\<lambda>b. if P b then b\<lparr>btype := nextType (btype b)\<rparr> else b) (bonds s)) s)" for P
    by (rule gestureInv_commit [OF inv]) (use nd in \<open>auto simp: noDangling_iff\<close>)
  have upd: "gestureInv (t\<lparr>isDragging := v, pointerPos := w\<rparr>)" if "gestureInv t" for t v w
    using that by (simp add: gestureInv_def idle_def split: option.splits)
  have upd2: "gestureInv (t\<lparr>pointerPos := w\<rparr>)" if "gestureInv t" for t w
    using that by (simp add: gestureInv_def idle_def split: option.splits)
  have pan: "gestureInv (s\<lparr>isPanning := v, panStart := w\<rparr>)" for v w
    using inv by (simp add: gestureInv_def idle_def split: option.splits)
  have anchor: "gestureInv (s\<lparr>dragStart := Some (anchorAt a)\<rparr>)" if "a \<in> set (atoms s)" "tool s \<noteq> Erase" for a
    using inv that by (auto simp: gestureInv_def idle_def anchorAt_def split: option.splits)
  have anchor2: "gestureInv (s\<lparr>dragStart := Some (anchorAt a), isDragging := True\<rparr>)" if "a \<in> set (atoms s)" "tool s \<noteq> Erase" for a
    using inv that by (auto simp: gestureInv_def idle_def anchorAt_def split: option.splits)
  have newatom: "gestureInv (s\<lparr>atoms := atoms s @ [addAtom newId x y el], dragStart := Some \<lparr>ds_id = newId, ds_x = x, ds_y = y\<rparr>\<rparr>)"
    if "tool s \<noteq> Erase" for el
    using inv that idAmong_mono [of _ "atoms s" "atoms s @ [addAtom newId x y el]"]
    by (auto simp: gestureInv_def idle_def addAtom_def noDangling_iff)
  show ?thesis
  proof (cases "isReadOnly p")
    case True then show ?thesis using inv by (simp add: handlePointerDown_def)
  next
    case ro: False
    show ?thesis
    proof (cases "tool s")
      case Erase
      then show ?thesis using ro inv erase_atom erase_bond pan
        by (simp add: handlePointerDown_def Let_def x_def [symmetric] y_def [symmetric] split: option.splits)
    next
      case Select
      then show ?thesis using ro inv pan
        by (auto simp add: handlePointerDown_def Let_def x_def [symmetric] y_def [symmetric]
            split: option.splits intro!: upd2 anchor2 dest: find_in)
    next
      case Draw
      then show ?thesis using ro inv
        by (auto simp add: handlePointerDown_def Let_def x_def [symmetric] y_def [symmetric]
            split: option.splits intro!: upd anchor newatom cycle_bond dest: find_in)
    qed
  qed
qed


lemma map_ids: "(\<And>a. atom_id (f a) = atom_id a) \<Longrightarrow> map atom_id (map f xs) = map atom_id xs"
  by (induction xs) simp_all

lemma gestureInv_same_ids:
  assumes "gestureInv s" "map atom_id ats = map atom_id (atoms s)"
  shows "gestureInv (s\<lparr>atoms := ats, pointerPos := w\<rparr>)"
  using assms idAmong_same_ids [of _ "atoms s" ats] unfolding gestureInv_def noDangling_def idle_def
  by (simp del: set_map)

lemma noDangling_same_ids:
  "noDangling ats bs \<Longrightarrow> map atom_id ats' = map atom_id ats \<Longrightarrow> noDangling ats' bs"
  unfolding noDangling_def by (simp del: set_map)

lemma inv_move: "gestureInv s \<Longrightarrow> gestureInv (handlePointerMove p e s)"
proof -
  assume inv: "gestureInv s"
  define c where "c = getPointerCoords p (view s) e"
  have pan: "gestureInv (s\<lparr>view := v, panStart := w\<rparr>)" for v w
    using inv by (simp add: gestureInv_def idle_def split: option.splits)
  have hov: "gestureInv (s\<lparr>hoveredAtom := h\<rparr>)" for h
    using inv by (simp add: gestureInv_def idle_def split: option.splits)
  have mv: "gestureInv (s\<lparr>atoms := map (\<lambda>a. if P a then a\<lparr>atom_x := u, atom_y := v\<rparr> else a) (atoms s), pointerPos := w\<rparr>)"
    for P u v w
    by (rule gestureInv_same_ids [OF inv], rule map_ids) simp
  have snap: "gestureInv (s\<lparr>pointerPos := w, snapTargetId := Some (atom_id a)\<rparr>)"
    if "a \<in> set (atoms s)" "tool s = Draw" for a w
    using inv that by (simp add: gestureInv_def idle_def split: option.splits)
  have nosnap: "gestureInv (s\<lparr>pointerPos := w, snapTargetId := None\<rparr>)" for w
    using inv by (simp add: gestureInv_def idle_def split: option.splits)
  show ?thesis
  proof (cases "isReadOnly p \<or> (isPanning s \<and> panStart s \<noteq> None)")
    case True
    then show ?thesis using inv pan by (auto simp: handlePointerMove_def Let_def split: option.splits)
  next
    case np: False
    show ?thesis
    proof (cases "tool s = Select \<and> isDragging s \<and> dragStart s \<noteq> None")
      case True
      then show ?thesis using np mv
        by (auto simp: handlePointerMove_def Let_def)
    next
      case ns: False
      show ?thesis
      proof (cases "tool s = Draw")
        case False
        then show ?thesis using np ns inv by (auto simp: handlePointerMove_def Let_def split: option.splits)
      next
        case dr: True
        show ?thesis
        proof (cases "if isDragging s then dragStart s else None")
          case None
          then show ?thesis using np ns dr hov by (auto simp: handlePointerMove_def Let_def split: option.splits)
        next
          case (Some d)
          then show ?thesis using np ns dr snap nosnap
            by (auto simp: handlePointerMove_def Let_def split: option.splits dest!: find_in)
        qed
      qed
    qed
  qed
qed

lemma findIndex_Some: "findIndex P xs = Some i \<Longrightarrow> i < length xs \<and> P (xs ! i) \<and> (\<forall>j<i. \<not> P (xs ! j))"
proof (induction xs arbitrary: i)
  case Nil then show ?case by simp
next
  case (Cons x xs)
  show ?case
  proof (cases "P x")
    case True with Cons.prems show ?thesis by simp
  next
    case False
    with Cons.prems obtain k where k: "findIndex P xs = Some k" "i = Suc k" by auto
    from Cons.IH [OF k(1)] False k(2) show ?thesis
      by (auto simp: less_Suc_eq_0_disj)
  qed
qed

lemma findIndex_None: "findIndex P xs = None \<Longrightarrow> \<forall>x\<in>set xs. \<not> P x"
  by (induction xs) (auto split: if_splits)

lemma inv_release:
  assumes inv: "gestureInv s" and d: "dragStart s = Some d" and t: "tool s = Draw"
  shows "gestureInv (drawRelease na nb d pp s)"
proof -
  have nd: "noDangling (atoms s) (bonds s)" using inv by (simp add: gestureInv_def)
  have did: "ds_id d \<in> atom_id ` set (atoms s)" using inv d by (simp add: gestureInv_def)
  have sin: "t \<in> atom_id ` set (atoms s)" if "snapTargetId s = Some t" for t
    using inv that by (simp add: gestureInv_def)
  have relabel: "gestureInv (commitToHistory (map (\<lambda>a. if P a then a\<lparr>element := el\<rparr> else a) (atoms s)) (bonds s) s)" for P el
  proof (rule gestureInv_commit [OF inv])
    have eq: "map atom_id (map (\<lambda>a. if P a then a\<lparr>element := el\<rparr> else a) (atoms s)) = map atom_id (atoms s)"
      by (rule map_ids) simp
    show "noDangling (map (\<lambda>a. if P a then a\<lparr>element := el\<rparr> else a) (atoms s)) (bonds s)"
      by (rule noDangling_same_ids [OF nd eq])
    have "set (map atom_id (atoms s)) = set (map atom_id (map (\<lambda>a. if P a then a\<lparr>element := el\<rparr> else a) (atoms s)))"
      by (simp only: eq)
    then show "atom_id ` set (atoms s) \<subseteq> atom_id ` set (map (\<lambda>a. if P a then a\<lparr>element := el\<rparr> else a) (atoms s))"
      by (simp only: set_map)
  qed
  have drag: "gestureInv (commitToHistory ats bs s)"
    if "atom_id ` set (atoms s) \<subseteq> atom_id ` set ats"
       "\<forall>b\<in>set bs. b \<in> set (bonds s) \<or> (source b \<in> atom_id ` set ats \<and> target b \<in> atom_id ` set ats)" for ats bs
  proof (rule gestureInv_commit [OF inv _ that(1)])
    show "noDangling ats bs" using nd that unfolding noDangling_iff by blast
  qed
  define tid where "tid = (case snapTargetId s of None \<Rightarrow> na | Some t \<Rightarrow> if t = [] then na else t)"
  define nat' where "nat' = (if (case snapTargetId s of None \<Rightarrow> True | Some t \<Rightarrow> t = []) then atoms s @ [addAtom na (fst pp) (snd pp) (activeElement s)] else atoms s)"
  have sub: "atom_id ` set (atoms s) \<subseteq> atom_id ` set nat'"
    by (auto simp: nat'_def)
  have tin: "tid \<in> atom_id ` set nat'"
    using sin by (auto simp: tid_def nat'_def addAtom_def split: option.splits)
  have c1: "gestureInv (commitToHistory nat' (bonds s) s)"
    by (rule drag [OF sub]) simp
  have c2: "gestureInv (commitToHistory nat' (bonds s @ [\<lparr>bond_id = nb, source = ds_id d, target = tid, btype = 1\<rparr>]) s)"
    by (rule drag [OF sub]) (use did sub tin in auto)
  have c3: "gestureInv (commitToHistory nat' ((bonds s)[i := (bonds s ! i)\<lparr>btype := k\<rparr>]) s)" if "i < length (bonds s)" for i k
  proof (rule gestureInv_commit [OF inv _ sub])
    have "\<forall>b\<in>set ((bonds s)[i := (bonds s ! i)\<lparr>btype := k\<rparr>]). source b \<in> atom_id ` set (atoms s) \<and> target b \<in> atom_id ` set (atoms s)"
    proof
      fix b assume "b \<in> set ((bonds s)[i := (bonds s ! i)\<lparr>btype := k\<rparr>])"
      then have "b \<in> set (bonds s) \<or> b = (bonds s ! i)\<lparr>btype := k\<rparr>"
        using set_update_subset_insert [of "bonds s" i] by auto
      moreover have "bonds s ! i \<in> set (bonds s)" using that by simp
      ultimately show "source b \<in> atom_id ` set (atoms s) \<and> target b \<in> atom_id ` set (atoms s)"
        using nd unfolding noDangling_iff by auto
    qed
    then show "noDangling nat' ((bonds s)[i := (bonds s ! i)\<lparr>btype := k\<rparr>])"
      using sub unfolding noDangling_iff by blast
  qed
  have unf: "drawRelease na nb d pp s =
     (if distance (ds_x d, ds_y d) pp < 5 then
        (case find (\<lambda>a. atom_id a = ds_id d) (atoms s) of
           Some targetAtom \<Rightarrow>
             commitToHistory (map (\<lambda>a. if atom_id a = atom_id targetAtom then a\<lparr>element := activeElement s\<rparr> else a) (atoms s)) (bonds s) s
         | None \<Rightarrow> s)
      else if tid \<noteq> [] \<and> tid \<noteq> ds_id d then
        (case findIndex (bondBetween (ds_id d) tid) (bonds s) of
           Some i \<Rightarrow> commitToHistory nat' ((bonds s)[i := (bonds s ! i)\<lparr>btype := nextType (btype (bonds s ! i))\<rparr>]) s
         | None \<Rightarrow> commitToHistory nat' (bonds s @ [\<lparr>bond_id = nb, source = ds_id d, target = tid, btype = 1\<rparr>]) s)
      else commitToHistory nat' (bonds s) s)"
    by (cases "snapTargetId s") (simp_all add: drawRelease_def Let_def tid_def nat'_def split: option.splits)
  show ?thesis
  proof (cases "distance (ds_x d, ds_y d) pp < 5")
    case True
    then show ?thesis using inv relabel by (simp add: unf split: option.splits)
  next
    case far: False
    show ?thesis
    proof (cases "tid \<noteq> [] \<and> tid \<noteq> ds_id d")
      case False
      then show ?thesis using far c1 by (auto simp add: unf)
    next
      case True
      show ?thesis
      proof (cases "findIndex (bondBetween (ds_id d) tid) (bonds s)")
        case None
        then show ?thesis using far True c2 by (simp add: unf)
      next
        case (Some i)
        then have "i < length (bonds s)" by (simp add: findIndex_Some)
        then show ?thesis using far True Some c3 by (simp add: unf)
      qed
    qed
  qed
qed

lemma inv_up: "gestureInv s \<Longrightarrow> gestureInv (handlePointerUp p na nb s)"
proof -
  assume inv: "gestureInv s"
  have reset: "gestureInv (t\<lparr>dragStart := None, isDragging := False, hoveredAtom := None, snapTargetId := None, pointerPos := None\<rparr>)"
    if "gestureInv t" for t
    using that by (simp add: gestureInv_def idle_def split: option.splits)
  have pan: "gestureInv (s\<lparr>isPanning := False, panStart := None\<rparr>)"
    using inv by (simp add: gestureInv_def idle_def split: option.splits)
  have sel: "gestureInv ((commitToHistory (atoms s) (bonds s) s)\<lparr>isDragging := False, dragStart := None\<rparr>)"
  proof -
    have "gestureInv (commitToHistory (atoms s) (bonds s) s)"
      by (rule gestureInv_commit [OF inv]) (use inv in \<open>simp_all add: gestureInv_def\<close>)
    then show ?thesis by (simp add: gestureInv_def idle_def split: option.splits)
  qed
  show ?thesis
    using inv pan sel reset inv_release
    by (auto simp add: handlePointerUp_def split: option.splits)
qed

lemma inv_wheel: "gestureInv s \<Longrightarrow> gestureInv (handleWheel p e s)"
  by (simp add: handleWheel_def Let_def gestureInv_def idle_def split: option.splits)

lemma inv_buttons:
  assumes "gestureInv s" "idle s"
  shows "gestureInv (case undo s of Inl _ \<Rightarrow> s | Inr s' \<Rightarrow> s')"
    and "gestureInv (case redo s of Inl _ \<Rightarrow> s | Inr s' \<Rightarrow> s')"
    and "gestureInv (clearCanvas p s)"
proof -
  have entry: "noDangling (h_atoms h) (h_bonds h)" if "nth_opt (history s) i = Some h" for i h
  proof -
    from that have "h \<in> set (history s)" by (auto simp: nth_opt_def split: if_splits)
    then show ?thesis using assms(1) by (auto simp: gestureInv_def list_all_iff snapshotOk_def)
  qed
  show "gestureInv (case undo s of Inl _ \<Rightarrow> s | Inr s' \<Rightarrow> s')"
    using assms entry by (auto simp: undo_def gestureInv_def idle_def split: option.splits)
  show "gestureInv (case redo s of Inl _ \<Rightarrow> s | Inr s' \<Rightarrow> s')"
    using assms entry by (auto simp: redo_def gestureInv_def idle_def split: option.splits)
  show "gestureInv (clearCanvas p s)"
    using assms gestureInv_commit_idle [of s "[]" "[]"] by (simp add: clearCanvas_def noDangling_def)
qed

lemma inv_tool: "gestureInv s \<Longrightarrow> t \<noteq> Erase \<or> idle s \<Longrightarrow> gestureInv (handleSetTool t s)"
  by (auto simp: handleSetTool_def gestureInv_def idle_def)

lemma inv_element: "gestureInv s \<Longrightarrow> gestureInv (handleSetElement el s)"
  by (simp add: handleSetElement_def gestureInv_def idle_def)

lemma inv_sync:
  assumes "gestureInv s" "idle s" "cleanValue v"
  shows "gestureInv (propSync v s)"
proof (cases v)
  case None
  then show ?thesis using assms(1) by (simp add: propSync_def)
next
  case (Some w)
  have ad: "gestureInv (adopt w a b s)"
    if "v_atoms w = IsArray a" "v_bonds w = IsArray b" for a b
  proof -
    from assms(3) Some that have cl: "noDangling a b"
      "case v_history w of None \<Rightarrow> True | Some h \<Rightarrow> list_all snapshotOk h"
      by (simp_all add: cleanValue_def)
    have h: "list_all snapshotOk (orElse (v_history w) (history s))"
      using cl(2) assms(1) by (cases "v_history w") (simp_all add: orElse_def gestureInv_def)
    show ?thesis using cl(1) h assms(2)
      by (simp add: adopt_def gestureInv_def idle_def)
  qed
  show ?thesis
  proof (cases "v_atoms w")
    case (IsArray a)
    show ?thesis
    proof (cases "v_bonds w")
      case (IsArray b)
      then show ?thesis using Some \<open>v_atoms w = IsArray a\<close> ad assms(1)
        by (simp add: propSync_def)
    qed (use Some \<open>v_atoms w = IsArray a\<close> assms(1) in \<open>simp_all add: propSync_def\<close>)
  qed (use Some assms(1) in \<open>simp_all add: propSync_def\<close>)
qed

lemma inv_step: "gestureInv s \<Longrightarrow> permitted s e \<Longrightarrow> gestureInv (step p s e)"
  by (cases e)
     (auto simp: inv_down inv_move inv_up inv_wheel inv_buttons inv_tool inv_element inv_sync)

lemma inv_run: "gestureInv s \<Longrightarrow> gestureAtomic p s evs \<Longrightarrow> gestureInv (run p s evs)"
  unfolding run_def
  by (induction evs arbitrary: s) (auto simp: inv_step)

lemmas eval_defs = run_def handlePointerDown_def props0_def pev_def initialEditor_def
  getPointerCoords_def Let_def addAtom_def handlePointerMove_def snap_east clearCanvas_def
  commitToHistory_def sliceTo_def handlePointerUp_def drawRelease_def distance_def vec_len_def
  vec_sub_def sqrt_3600 pos_def BOND_SNAP_DIST_def anchorAt_def hitBond_def atomA_def atomB_def
  bondAB_def ethane_def dragAB_def midDragAB_def nextType_def bondBetween_def handleSetTool_def

text \<open>
  The two-carbon scene: pressing on the first carbon and moving onto the second gives the
  mid-drag state, and three such drags take the bond through the orders 2, 3 and 1 without
  adding an atom.
\<close>

lemma run_to_midDragAB:
  "run props0 ethane [PointerDown (pev 0 0) ''x1'', PointerMove (pev 60 0)] = midDragAB"
  by (simp add: eval_defs)

lemma three_drags_cycle_order:
  "map btype (bonds (run props0 ethane dragAB)) = [2]
   \<and> map btype (bonds (run props0 ethane (dragAB @ dragAB))) = [3]
   \<and> map btype (bonds (run props0 ethane (dragAB @ dragAB @ dragAB))) = [1]
   \<and> length (atoms (run props0 ethane (dragAB @ dragAB @ dragAB))) = 2"
  by (simp add: eval_defs)

text \<open>
  C5. While the draw tool drags from an anchor (editor not read-only, no pan in progress),
  a pointer move computes the candidate endpoint anchor + 60 * (cos phi, sin phi), where
  theta in (-pi, pi] is the direction from the anchor to the raw pointer position and phi is
  the multiple of 30 degrees nearest to theta (at most 15 degrees away); the candidate is
  exactly 60 units from the anchor. If some atom other than the anchor is less than 20
  units from the raw pointer position or from the candidate, the tracked pointer position
  becomes the position of such an atom and that atom becomes the snap target; otherwise
  the tracked pointer position is the candidate and there is no snap target.
\<close>

theorem draw_move_snaps_to_angle_or_atom:
  assumes ro: "\<not> isReadOnly p" and pan: "\<not> (isPanning s \<and> panStart s \<noteq> None)"
    and tl: "tool s = Draw" and dr: "isDragging s" and d: "dragStart s = Some d"
  shows
   "let raw = getPointerCoords p (view s) e;
        theta = atan2 (snd raw - ds_y d) (fst raw - ds_x d);
        phi = of_int (round (theta / (pi / 6))) * (pi / 6);
        cand = (ds_x d + cos phi * 60, ds_y d + sin phi * 60);
        s' = handlePointerMove p e s
    in vec_sub raw (ds_x d, ds_y d) = vec_scale (cos theta, sin theta) (distance raw (ds_x d, ds_y d))
       \<and> - pi < theta \<and> theta \<le> pi
       \<and> \<bar>phi - theta\<bar> \<le> pi / 12
       \<and> distance cand (ds_x d, ds_y d) = 60
       \<and> ((\<exists>a\<in>set (atoms s). nearTarget d raw cand a) \<longrightarrow>
            (\<exists>a\<in>set (atoms s). nearTarget d raw cand a
                \<and> pointerPos s' = Some (atom_x a, atom_y a) \<and> snapTargetId s' = Some (atom_id a)))
       \<and> ((\<forall>a\<in>set (atoms s). \<not> nearTarget d raw cand a) \<longrightarrow>
            pointerPos s' = Some cand \<and> snapTargetId s' = None)"
proof -
  define raw where "raw = getPointerCoords p (view s) e"
  define theta where "theta = atan2 (snd raw - ds_y d) (fst raw - ds_x d)"
  define phi where "phi = of_int (round (theta / (pi / 6))) * (pi / 6)"
  define cand where "cand = (ds_x d + cos phi * 60, ds_y d + sin phi * 60)"
  define s' where "s' = handlePointerMove p e s"
  have cand_eq: "snapToAngle (ds_x d) (ds_y d) (fst raw) (snd raw) = cand"
    by (simp add: snapToAngle_def Let_def cand_def phi_def theta_def)
  have s'_eq: "s' = (case find (nearTarget d raw cand) (atoms s) of
                      Some st \<Rightarrow> s\<lparr>pointerPos := Some (atom_x st, atom_y st), snapTargetId := Some (atom_id st)\<rparr>
                    | None \<Rightarrow> s\<lparr>pointerPos := Some cand, snapTargetId := None\<rparr>)"
  proof -
    have "(\<lambda>a. atom_id a \<noteq> ds_id d \<and> (distance (pos a) raw < BOND_SNAP_DIST \<or> distance (pos a) cand < BOND_SNAP_DIST))
          = nearTarget d raw cand"
      by (simp add: nearTarget_def BOND_SNAP_DIST_def fun_eq_iff)
    then show ?thesis
      using ro pan tl dr d
      by (auto simp add: s'_def handlePointerMove_def Let_def raw_def [symmetric] cand_eq split: option.splits)
  qed
  have polar: "vec_sub raw (ds_x d, ds_y d) = vec_scale (cos theta, sin theta) (distance raw (ds_x d, ds_y d))"
    using atan2_polar [of "fst raw - ds_x d" "snd raw - ds_y d"]
    by (simp add: vec_sub_def vec_scale_def distance_def vec_len_def theta_def mult.commute)
  have rng: "- pi < theta \<and> theta \<le> pi"
    unfolding theta_def by (rule atan2_range)
  have near: "\<bar>phi - theta\<bar> \<le> pi / 12"
    unfolding phi_def by (rule round_snap)
  have len: "distance cand (ds_x d, ds_y d) = 60"
    using snap_len [of "ds_x d" "ds_y d" "fst raw" "snd raw"] by (simp add: cand_eq)
  have hit: "\<exists>a\<in>set (atoms s). nearTarget d raw cand a
                \<and> pointerPos s' = Some (atom_x a, atom_y a) \<and> snapTargetId s' = Some (atom_id a)"
    if "\<exists>a\<in>set (atoms s). nearTarget d raw cand a"
  proof -
    from that have "find (nearTarget d raw cand) (atoms s) \<noteq> None"
      by (auto simp: find_None_iff)
    then obtain st where st: "find (nearTarget d raw cand) (atoms s) = Some st" by auto
    from find_in [OF st] st show ?thesis by (auto simp: s'_eq)
  qed
  have miss: "pointerPos s' = Some cand \<and> snapTargetId s' = None"
    if "\<forall>a\<in>set (atoms s). \<not> nearTarget d raw cand a"
  proof -
    from that have "find (nearTarget d raw cand) (atoms s) = None"
      by (simp add: find_None_iff)
    then show ?thesis by (simp add: s'_eq)
  qed
  from polar rng near len hit miss show ?thesis
    unfolding Let_def raw_def [symmetric] theta_def [symmetric] phi_def [symmetric]
      cand_def [symmetric] s'_def [symmetric]
    by blast
qed

theorem draw_move_snaps_to_angle_or_atom_witness:
  "pointerPos (handlePointerMove props0 (pev 60 0) midDragAB) = Some (60, 0)
   \<and> snapTargetId (handlePointerMove props0 (pev 60 0) midDragAB) = Some ''b''
   \<and> pointerPos (handlePointerMove props0 (pev 100 0) loneA) = Some (60, 0)
   \<and> snapTargetId (handlePointerMove props0 (pev 100 0) loneA) = None"
  using draw_move_snaps_to_angle_or_atom [of props0 midDragAB "anchorAt atomA" "pev 60 0"]
        draw_move_snaps_to_angle_or_atom [of props0 loneA "anchorAt atomA" "pev 100 0"]
  by (simp add: eval_defs loneA_def nearTarget_def atan2_def vec_scale_def)



text \<open>
  An undisturbed gesture keeps the graph clean. Start from a state in which the live graph
  and every history entry have no dangling bond, the anchor and the snap target of a
  gesture (if set) are atoms of the live graph, and the erase tool holds neither; the
  initial editor is such a state. Along every sequence of permitted events, every
  snapshot in the history, and the live graph, has both endpoints of every bond among its
  atoms.
\<close>

lemma undisturbed_gestures_commit_clean_snapshots:
  assumes "gestureInv s" "gestureAtomic p s evs"
  shows "list_all snapshotOk (history (run p s evs))
         \<and> noDangling (atoms (run p s evs)) (bonds (run p s evs))"
  using inv_run [OF assms] by (simp add: gestureInv_def)

lemma draw_then_erase_is_clean:
  "gestureInv initialEditor \<and> gestureAtomic props0 initialEditor drawThenErase
   \<and> list_all snapshotOk (history (run props0 initialEditor drawThenErase))
   \<and> length (history (run props0 initialEditor drawThenErase)) = 3"
proof -
  have a: "gestureInv initialEditor"
    by (simp add: gestureInv_def initialEditor_def noDangling_def snapshotOk_def idle_def)
  have b: "gestureAtomic props0 initialEditor drawThenErase"
    by (simp add: drawThenErase_def eval_defs idle_def)
  have c: "length (history (run props0 initialEditor drawThenErase)) = 3"
    by (simp add: drawThenErase_def eval_defs)
  from undisturbed_gestures_commit_clean_snapshots [OF a b] a b c show ?thesis by simp
qed

text \<open>
  C7. The drag branch of \<open>handlePointerUp\<close> builds the new bond from the anchor id and the
  snap target id that the gesture recorded, without looking them up in the current atoms
  (the click branch of the same handler does look the anchor up). When the graph is
  replaced between pointer-down and pointer-up, the handler therefore commits a dangling
  bond. Two runs from the initial editor: press on the empty canvas, drag 100 units to the
  right, then either press the clear button or let the host supply the empty graph, and
  release. In both, the last snapshot committed holds the single atom a2 and a bond from
  a1 to a2, and a1 is not an atom of that snapshot.
\<close>

theorem stale_anchor_commits_dangling_bond:
  "history (run props0 initialEditor clearMidDrag)
     = [\<lparr> h_atoms = [], h_bonds = [] \<rparr>, \<lparr> h_atoms = [], h_bonds = [] \<rparr>,
        \<lparr> h_atoms = [\<lparr> atom_id = ''a2'', atom_x = 60, atom_y = 0, element = ''C'' \<rparr>],
          h_bonds = [\<lparr> bond_id = ''b1'', source = ''a1'', target = ''a2'', btype = 1 \<rparr>] \<rparr>]
   \<and> \<not> list_all snapshotOk (history (run props0 initialEditor clearMidDrag))
   \<and> history (run props0 initialEditor syncMidDrag)
     = [\<lparr> h_atoms = [], h_bonds = [] \<rparr>,
        \<lparr> h_atoms = [\<lparr> atom_id = ''a2'', atom_x = 60, atom_y = 0, element = ''C'' \<rparr>],
          h_bonds = [\<lparr> bond_id = ''b1'', source = ''a1'', target = ''a2'', btype = 1 \<rparr>] \<rparr>]
   \<and> \<not> list_all snapshotOk (history (run props0 initialEditor syncMidDrag))"
  by (simp add: clearMidDrag_def syncMidDrag_def emptyValue_def eval_defs snapshotOk_def
      noDangling_def propSync_def adopt_def orElse_def currentJSON_def newJSON_def)

section \<open>Properties of the bond geometry\<close>









lemma pi_lt_999: "pi < 999"
  using pi_less_4 by simp











lemma arccos_m35: "0 < arccos (- (3/5)) \<and> arccos (- (3/5)) < pi"
  by (rule arccos_lt_bounded) simp_all

lemma tan_half_m35: "tan ((pi - arccos (- (3/5))) / 2) = 1/2"
proof -
  let ?th = "arccos (- (3/5)) :: real"
  have c: "cos ?th = - (3/5)" by (rule cos_arccos) simp_all
  have "sin ?th = sqrt (1 - (- (3/5))\<^sup>2)" by (rule sin_arccos) simp_all
  also have "1 - (- (3/5 :: real))\<^sup>2 = (4/5)\<^sup>2" by (simp add: power2_eq_square)
  finally have sn: "sin ?th = 4/5" by simp
  have "tan (?th / 2) = sin (2 * (?th / 2)) / (cos (2 * (?th / 2)) + 1)" by (rule tan_half)
  then have t2: "tan (?th / 2) = 2" by (simp add: c sn)
  have "tan ((pi - ?th) / 2) = tan (pi / 2 - ?th / 2)" by (simp add: diff_divide_distrib)
  also have "\<dots> = inverse (tan (?th / 2))" by (rule tan_cot)
  finally show ?thesis by (simp add: t2)
qed

lemma m35_facts:
  "arccos (- (3/5)) < 999" "arccos (- (3/5)) \<noteq> 0" "arccos (- (3/5)) < pi"
  "tan (pi / 2 - arccos (- (3/5)) / 2) = 1/2"
proof -
  show "arccos (- (3/5)) < 999" using arccos_m35 pi_less_4 by linarith
  show "arccos (- (3/5)) \<noteq> 0" using arccos_m35 by simp
  show "arccos (- (3/5)) < pi" using arccos_m35 by simp
  show "tan (pi / 2 - arccos (- (3/5)) / 2) = 1/2"
    using tan_half_m35 by (simp add: diff_divide_distrib)
qed

lemmas geo_defs = getBondCoords_def getMinAngle_def neighbors_def minAngleStep_def offsetLine_def shortenBy_def
  centerLine_def shiftedLine_def offset_def vec_sub_def vec_len_def vec_norm_def vec_cross_def vec_dot_def vec_angle_def
  vec_scale_def vec_add_def pos_def Let_def sqrt_3600 atomS_def atomT_def atomU_def bondST_def bondSU_def m35_facts

lemmas spec_defs = sideAngles_def allAngles_def axisFrom_def smallest_def trimAt_def
  trimmedLine_def parallelLine_def sideScore_def claimedTrim_def tan_half_m35




lemma arccos_35: "0 < arccos (3/5) \<and> arccos (3/5) < pi"
  by (rule arccos_lt_bounded) simp_all

lemma arccos_35_lt: "arccos (3/5) < arccos (- (3/5))"
  by (rule arccos_less_arccos) simp_all

lemma tan_half_35: "tan ((pi - arccos (3/5)) / 2) = 2"
proof -
  let ?th = "arccos (3/5) :: real"
  have c: "cos ?th = 3/5" by (rule cos_arccos) simp_all
  have "sin ?th = sqrt (1 - (3/5)\<^sup>2)" by (rule sin_arccos) simp_all
  also have "1 - (3/5 :: real)\<^sup>2 = (4/5)\<^sup>2" by (simp add: power2_eq_square)
  finally have sn: "sin ?th = 4/5" by simp
  have "tan (?th / 2) = sin (2 * (?th / 2)) / (cos (2 * (?th / 2)) + 1)" by (rule tan_half)
  then have t2: "tan (?th / 2) = 1/2" by (simp add: c sn)
  have "tan ((pi - ?th) / 2) = tan (pi / 2 - ?th / 2)" by (simp add: diff_divide_distrib)
  also have "\<dots> = inverse (tan (?th / 2))" by (rule tan_cot)
  finally show ?thesis by (simp add: t2)
qed

lemma p35_facts:
  "arccos (3/5) < 999" "arccos (3/5) \<noteq> 0" "arccos (3/5) < pi"
  "tan (pi / 2 - arccos (3/5) / 2) = 2" "arccos (3/5) < arccos (- (3/5))"
  "\<not> arccos (- (3/5)) < arccos (3/5)" "\<not> arccos (- (3/5)) \<le> arccos (3/5)"
  "arccos (3/5) \<le> arccos (- (3/5))"
proof -
  show "arccos (3/5) < 999" using arccos_35 pi_less_4 by linarith
  show "arccos (3/5) \<noteq> 0" using arccos_35 by simp
  show "arccos (3/5) < pi" using arccos_35 by simp
  show "tan (pi / 2 - arccos (3/5) / 2) = 2"
    using tan_half_35 by (simp add: diff_divide_distrib)
  show "arccos (3/5) < arccos (- (3/5))" by (rule arccos_35_lt)
  show "\<not> arccos (- (3/5)) < arccos (3/5)" using arccos_35_lt by simp
  show "\<not> arccos (- (3/5)) \<le> arccos (3/5)" using arccos_35_lt by simp
  show "arccos (3/5) \<le> arccos (- (3/5))" using arccos_35_lt by simp
qed

lemma pi_facts: "pi < 999" "\<not> 999 \<le> pi" "arccos (- (3/5)) \<le> pi" "\<not> pi < arccos (- (3/5))" "\<not> pi \<le> arccos (- (3/5))"
  using pi_lt_999 arccos_m35 by simp_all

lemmas scene_defs = atomW_def bondSW_def atomV_def bondSV_def p35_facts pi_facts

lemmas side_defs = sideTrim_def sameSideLeast_def offsetOnSide_def pointAfter_def pointBefore_def




text \<open>
  Where a neighbouring bond on the other side makes the smaller angle, the renderer cuts
  by the amount of that angle: with a right neighbour at arccos (-3/5) and a left
  neighbour at arccos (3/5), the right line starts 12 units after s, where the angle on
  its own side gives 3.
\<close>

lemma smaller_angle_on_the_other_side:
  "getBondCoords [atomS, atomT, atomU, atomV] [bondST 3, bondSU, bondSV] (bondST 3)
     = Some [\<lparr> x1 = 0, y1 = 0, x2 = 60, y2 = 0 \<rparr>, \<lparr> x1 = 12, y1 = 6, x2 = 60, y2 = 6 \<rparr>,
             \<lparr> x1 = 12, y1 = - 6, x2 = 60, y2 = - 6 \<rparr>]
   \<and> sideAngles [atomS, atomT, atomU, atomV] [bondST 3, bondSU, bondSV] (bondST 3)
        atomS atomT True ''s'' = [arccos (- (3/5))]
   \<and> sideAngles [atomS, atomT, atomU, atomV] [bondST 3, bondSU, bondSV] (bondST 3)
        atomS atomT False ''s'' = [arccos (3/5)]
   \<and> sideTrim [atomS, atomT, atomU, atomV] [bondST 3, bondSU, bondSV] (bondST 3)
        atomS atomT True ''s'' = 3
   \<and> \<not> sameSideLeast [atomS, atomT, atomU, atomV] [bondST 3, bondSU, bondSV] (bondST 3)
        atomS atomT True ''s''"
  by (simp add: geo_defs spec_defs scene_defs side_defs)



section \<open>Properties of prop synchronisation\<close>

text \<open>
  C9. When the atoms field or the bonds field of the supplied value is missing or not an
  array, the state is returned unchanged (and nothing is thrown). When both are arrays,
  the candidate text differs from the text of the current state (it always does: it has
  the additional key \<open>view\<close>), and the editor adopts every provided field (atoms, bonds,
  history, historyIndex, tool, a non-empty activeElement, view) and keeps the current
  value of every missing one.
\<close>

theorem prop_sync_validates_and_adopts:
  "((\<forall>a. v_atoms v \<noteq> IsArray a) \<or> (\<forall>b. v_bonds v \<noteq> IsArray b) \<longrightarrow> propSync (Some v) s = s)
   \<and> (v_atoms v = IsArray a \<and> v_bonds v = IsArray b \<and> v_activeElement v \<noteq> Some [] \<longrightarrow>
        currentJSON s \<noteq> newJSON v a b s
        \<and> propSync (Some v) s
            = s\<lparr> atoms := a, bonds := b,
                  history := orElse (v_history v) (history s),
                  historyIndex := orElse (v_historyIndex v) (historyIndex s),
                  tool := orElse (v_tool v) (tool s),
                  activeElement := orElse (v_activeElement v) (activeElement s),
                  view := orElse (v_view v) (view s) \<rparr>)"
proof -
  have inv: "propSync (Some v) s = s" if "(\<forall>a. v_atoms v \<noteq> IsArray a) \<or> (\<forall>b. v_bonds v \<noteq> IsArray b)"
    using that by (auto simp: propSync_def split: jsfield.splits)
  have ne: "currentJSON s \<noteq> newJSON v a b s"
    by (simp add: currentJSON_def newJSON_def)
  have ad: "adopt v a b s = s\<lparr> atoms := a, bonds := b,
                  history := orElse (v_history v) (history s),
                  historyIndex := orElse (v_historyIndex v) (historyIndex s),
                  tool := orElse (v_tool v) (tool s),
                  activeElement := orElse (v_activeElement v) (activeElement s),
                  view := orElse (v_view v) (view s) \<rparr>" if "v_activeElement v \<noteq> Some []"
    using that by (cases "v_activeElement v") (simp_all add: adopt_def orElse_def)
  have val: "propSync (Some v) s = adopt v a b s" if "v_atoms v = IsArray a" "v_bonds v = IsArray b"
    using that ne by (simp add: propSync_def)
  from inv ne ad val show ?thesis by metis
qed

theorem prop_sync_validates_and_adopts_witness:
  "propSync (Some badValue) initialEditor = initialEditor
   \<and> propSync (Some hostValue) initialEditor = initialEditor\<lparr> atoms := [atomS], bonds := [], tool := Select \<rparr>"
  using prop_sync_validates_and_adopts [of badValue initialEditor "[atomS]" "[]"]
        prop_sync_validates_and_adopts [of hostValue initialEditor "[atomS]" "[]"]
  by (simp add: badValue_def hostValue_def orElse_def)

end
